theory Spec2Isabelle
  imports Main "HOL-Library.Sublist" "HOL-Library.AList"
begin

text \<open>
  A model of the agricultural gateway: the two tool handlers of \<^verbatim>\<open>src/server.ts\<close>
  (crop prices from data.gov.in, web search from EXA), the registry, and the two
  front-ends of the hybrid server, \<^verbatim>\<open>POST /tools/{name}\<close> and the JSON-RPC endpoint
  \<^verbatim>\<open>POST /mcp\<close>. A handler is a function of the platform and of its parameters that
  returns its result together with the outbound requests it has issued.
\<close>

section \<open>JavaScript values\<close>

text \<open>
  The server handles untyped values (\<^verbatim>\<open>params: any\<close>, the result of \<^verbatim>\<open>JSON.parse\<close>).
  They are the JSON values plus \<^verbatim>\<open>undefined\<close>, the value of a property that is not there.
  An object is the list of its own properties in insertion order. Numbers are the
  integers (the documented values of \<^verbatim>\<open>limit\<close>, \<^verbatim>\<open>offset\<close>, \<^verbatim>\<open>num_results\<close>, \<^verbatim>\<open>total\<close>);
  a string is the list of its code units.
\<close>

datatype json =
    JUndefined
  | JNull
  | JBool bool
  | JNum int
  | JStr string
  | JArr "json list"
  | JObj "(string \<times> json) list"

text \<open>A thrown \<^verbatim>\<open>Error\<close>: its name and its message.\<close>

datatype exn = Exn (ename: string) (emessage: string)

definition TypeError :: "string \<Rightarrow> exn" where
  "TypeError msg = Exn ''TypeError'' msg"

text \<open>Sequencing of steps that may throw: the first throw ends the block.\<close>

definition bind_exn :: "exn + 'a \<Rightarrow> ('a \<Rightarrow> exn + 'b) \<Rightarrow> exn + 'b" where
  "bind_exn m f = (case m of Inl e \<Rightarrow> Inl e | Inr x \<Rightarrow> f x)"

subsection \<open>Conversions\<close>

text \<open>Truthiness, as tested by \<^verbatim>\<open>if (x)\<close>, \<^verbatim>\<open>!x\<close> and \<^verbatim>\<open>x || y\<close>.\<close>

fun truthy :: "json \<Rightarrow> bool" where
  "truthy JUndefined = False"
| "truthy JNull = False"
| "truthy (JBool b) = b"
| "truthy (JNum n) = (n \<noteq> 0)"
| "truthy (JStr s) = (s \<noteq> [])"
| "truthy (JArr xs) = True"
| "truthy (JObj fs) = True"

text \<open>\<^verbatim>\<open>x || y\<close> and \<^verbatim>\<open>x ?? y\<close>.\<close>

definition js_or :: "json \<Rightarrow> json \<Rightarrow> json" where
  "js_or x y = (if truthy x then x else y)"

definition nullish :: "json \<Rightarrow> bool" where
  "nullish x = (x = JUndefined \<or> x = JNull)"

definition js_coalesce :: "json \<Rightarrow> json \<Rightarrow> json" where
  "js_coalesce x y = (if nullish x then y else x)"

text \<open>The decimal digits of an integer.\<close>

definition digit_char :: "nat \<Rightarrow> char" where
  "digit_char d = ''0123456789'' ! d"

fun show_nat :: "nat \<Rightarrow> string" where
  "show_nat n = (if n < 10 then [digit_char n] else show_nat (n div 10) @ [digit_char (n mod 10)])"

declare show_nat.simps [simp del]

definition show_int :: "int \<Rightarrow> string" where
  "show_int i = (if i < 0 then ''-'' @ show_nat (nat (- i)) else show_nat (nat i))"

text \<open>\<^verbatim>\<open>String(err)\<close> of a thrown error: \<^verbatim>\<open>Error.prototype.toString\<close>.\<close>

definition String_exn :: "exn \<Rightarrow> string" where
  "String_exn e =
     (if emessage e = [] then ename e
      else if ename e = [] then emessage e
      else ename e @ '': '' @ emessage e)"

subsection \<open>Property access\<close>

text \<open>
  \<^verbatim>\<open>v.k\<close> on a value that is neither \<^verbatim>\<open>null\<close> nor \<^verbatim>\<open>undefined\<close>, for the property names
  the server reads: an own property of an object, \<^verbatim>\<open>length\<close> of a string or an array,
  and \<^verbatim>\<open>undefined\<close> otherwise. The two methods the server calls, \<^verbatim>\<open>map\<close> and
  \<^verbatim>\<open>substring\<close>, are modelled at their call (\<open>call_map\<close>, \<open>opt_substring\<close>).
\<close>

definition prop_of :: "json \<Rightarrow> string \<Rightarrow> json" where
  "prop_of v k =
     (case v of
        JObj fs \<Rightarrow> (case map_of fs k of None \<Rightarrow> JUndefined | Some x \<Rightarrow> x)
      | JArr xs \<Rightarrow> (if k = ''length'' then JNum (int (length xs)) else JUndefined)
      | JStr s \<Rightarrow> (if k = ''length'' then JNum (int (length s)) else JUndefined)
      | _ \<Rightarrow> JUndefined)"

text \<open>\<^verbatim>\<open>v.k\<close> in general: reading a property of \<^verbatim>\<open>null\<close> or \<^verbatim>\<open>undefined\<close> throws.\<close>

definition nullish_name :: "json \<Rightarrow> string" where
  "nullish_name v = (if v = JNull then ''null'' else ''undefined'')"

definition getprop :: "json \<Rightarrow> string \<Rightarrow> exn + json" where
  "getprop v k =
     (if nullish v
      then Inl (TypeError (''Cannot read properties of '' @ nullish_name v @
                           '' (reading '' @ [CHR 0x27] @ k @ [CHR 0x27] @ '')''))
      else Inr (prop_of v k))"

text \<open>
  \<^verbatim>\<open>const { k, ... } = v\<close>: destructuring \<^verbatim>\<open>null\<close> or \<^verbatim>\<open>undefined\<close> throws; \<open>k\<close> is the
  first name of the pattern and \<open>src\<close> the text of the right-hand side (for the message).
\<close>

definition destructure :: "string \<Rightarrow> string \<Rightarrow> json \<Rightarrow> exn + json" where
  "destructure k src v =
     (if nullish v
      then Inl (TypeError (''Cannot destructure property '' @ [CHR 0x27] @ k @ [CHR 0x27] @
                           '' of '' @ [CHR 0x27] @ src @ [CHR 0x27] @
                           '' as it is '' @ nullish_name v @ ''.''))
      else Inr v)"

text \<open>\<^verbatim>\<open>obj.k = v\<close> on an object literal under construction.\<close>

definition obj_set :: "string \<Rightarrow> json \<Rightarrow> (string \<times> json) list \<Rightarrow> (string \<times> json) list" where
  "obj_set k v fs = (if k \<in> fst ` set fs then AList.update k v fs else fs @ [(k, v)])"

section \<open>The platform\<close>

text \<open>
  What the server takes from its runtime: the environment variables, the JSON parser and
  printer, the URL encoders and the network. \<open>JSON_stringify P v n\<close> is
  \<^verbatim>\<open>JSON.stringify(v, null, n)\<close>, with \<open>n = 0\<close> for \<^verbatim>\<open>JSON.stringify(v)\<close>.
  \<open>Number_toString\<close> prints the numbers beyond the safe integers, where JavaScript
  rounds to the shortest digits and, from \<open>10\<^sup>2\<^sup>1\<close> up, writes an exponent.
  \<open>fetch\<close> answers an outbound request with a response or throws; \<open>now\<close> is
  \<^verbatim>\<open>new Date().toISOString()\<close>.
\<close>

record fetch_request =
  fmethod :: string
  furl :: string
  fheaders :: "(string \<times> string) list"
  fbody :: "string option"

record fetch_response =
  rstatus :: nat
  rtext :: string

definition ok :: "fetch_response \<Rightarrow> bool" where
  "ok res = (200 \<le> rstatus res \<and> rstatus res < 300)"

record platform =
  env :: "string \<Rightarrow> string option"
  JSON_parse :: "string \<Rightarrow> exn + json"
  JSON_stringify :: "json \<Rightarrow> nat \<Rightarrow> string"
  Number_toString :: "int \<Rightarrow> string"
  encodeURIComponent :: "string \<Rightarrow> string"
  URLSearchParams_toString :: "(string \<times> string) list \<Rightarrow> string"
  fetch :: "fetch_request \<Rightarrow> exn + fetch_response"
  now :: string

subsection \<open>Conversion to a string\<close>

text \<open>
  \<^verbatim>\<open>String(n)\<close> of a number: its decimal digits up to \<^verbatim>\<open>Number.MAX_SAFE_INTEGER\<close>, and
  what the platform prints beyond.
\<close>

definition MAX_SAFE_INTEGER :: int where
  "MAX_SAFE_INTEGER = 9007199254740991"

definition Number_String :: "platform \<Rightarrow> int \<Rightarrow> string" where
  "Number_String P n =
     (if - MAX_SAFE_INTEGER \<le> n \<and> n \<le> MAX_SAFE_INTEGER then show_int n else Number_toString P n)"

text \<open>
  \<^verbatim>\<open>String(v)\<close>, also the conversion of a template literal \<^verbatim>\<open>${v}\<close>, of an argument of
  \<^verbatim>\<open>URLSearchParams\<close> and of the left side of \<^verbatim>\<open>v + ''\<close>. An object is converted by its
  \<^verbatim>\<open>toString\<close>: the inherited one prints \<^verbatim>\<open>[object Object]\<close>; an own property of that
  name, which in a JSON value is never a function, leaves nothing to call, and the
  conversion throws. An array prints its elements joined by commas, with \<^verbatim>\<open>null\<close> and
  \<^verbatim>\<open>undefined\<close> elements empty, and throws where an element does.
\<close>

fun js_String :: "platform \<Rightarrow> json \<Rightarrow> exn + string"
  and js_join :: "platform \<Rightarrow> json list \<Rightarrow> exn + string" where
  "js_String P JUndefined = Inr ''undefined''"
| "js_String P JNull = Inr ''null''"
| "js_String P (JBool b) = Inr (if b then ''true'' else ''false'')"
| "js_String P (JNum n) = Inr (Number_String P n)"
| "js_String P (JStr s) = Inr s"
| "js_String P (JArr xs) = js_join P xs"
| "js_String P (JObj fs) =
     (if ''toString'' \<in> fst ` set fs
      then Inl (TypeError ''Cannot convert object to primitive value'')
      else Inr ''[object Object]'')"
| "js_join P [] = Inr []"
| "js_join P [x] = (if x = JNull \<or> x = JUndefined then Inr [] else js_String P x)"
| "js_join P (x # y # ys) =
     bind_exn (if x = JNull \<or> x = JUndefined then Inr [] else js_String P x) (\<lambda>s.
     bind_exn (js_join P (y # ys)) (\<lambda>r. Inr (s @ '','' @ r)))"

text \<open>\<^verbatim>\<open>!API_KEY\<close> on an environment variable: unset or empty.\<close>

definition env_missing :: "string option \<Rightarrow> bool" where
  "env_missing v = (case v of None \<Rightarrow> True | Some s \<Rightarrow> s = [])"

subsection \<open>URLSearchParams\<close>

definition usp_set :: "string \<Rightarrow> string \<Rightarrow> (string \<times> string) list \<Rightarrow> (string \<times> string) list" where
  "usp_set k v ps =
     (if k \<in> fst ` set ps
      then takeWhile (\<lambda>p. fst p \<noteq> k) ps @ [(k, v)] @
           filter (\<lambda>p. fst p \<noteq> k) (tl (dropWhile (\<lambda>p. fst p \<noteq> k) ps))
      else ps @ [(k, v)])"

definition usp_append :: "string \<Rightarrow> string \<Rightarrow> (string \<times> string) list \<Rightarrow> (string \<times> string) list" where
  "usp_append k v ps = ps @ [(k, v)]"

section \<open>Tool handlers\<close>

text \<open>
  A handler returns its result object together with the outbound requests it issued,
  in order. The \<^verbatim>\<open>try\<close> block around each handler turns every throw into a result.
  Line numbers are those of \<^verbatim>\<open>src/server.ts\<close>.
\<close>

definition error_result :: "string \<Rightarrow> json" where
  "error_result msg = JObj [(''error'', JStr msg)]"

definition server_error :: "exn \<Rightarrow> json" where
  "server_error err = error_result (''Server error: '' @ String_exn err)"

definition success_result :: "json \<Rightarrow> json" where
  "success_result d = JObj [(''success'', JBool True), (''data'', d)]"

subsection \<open>Crop price\<close>

record price_locals =
  p_state :: json
  p_district :: json
  p_commodity :: json
  p_limit :: json
  p_offset :: json

text \<open>Lines 24 to 26: the parameters, with the defaults of \<^verbatim>\<open>limit\<close> and \<^verbatim>\<open>offset\<close>.\<close>

definition cropPrice_locals :: "json \<Rightarrow> exn + price_locals" where
  "cropPrice_locals params =
     bind_exn (destructure ''state'' ''params'' params) (\<lambda>_.
     bind_exn (getprop params ''limit'') (\<lambda>l.
     bind_exn (getprop params ''offset'') (\<lambda>off.
       Inr \<lparr> p_state = prop_of params ''state'',
             p_district = prop_of params ''district'',
             p_commodity = prop_of params ''commodity'',
             p_limit = js_coalesce l (JNum 50),
             p_offset = js_coalesce off (JNum 0) \<rparr>)))"

text \<open>
  Lines 30 to 38: the entries of \<^verbatim>\<open>urlParams\<close>. \<^verbatim>\<open>String(limit)\<close>, \<^verbatim>\<open>String(offset)\<close> and
  the conversion of a filter by \<^verbatim>\<open>append\<close> may throw.
\<close>

definition cropPrice_urlParams ::
  "platform \<Rightarrow> string \<Rightarrow> price_locals \<Rightarrow> exn + (string \<times> string) list" where
  "cropPrice_urlParams P API_KEY a =
     (let u0 = [];
          u1 = usp_set ''api-key'' API_KEY u0;
          u2 = usp_set ''format'' ''json'' u1
      in bind_exn (js_String P (p_limit a)) (\<lambda>l.
         let u3 = usp_set ''limit'' l u2 in
         bind_exn (js_String P (p_offset a)) (\<lambda>off.
         let u4 = usp_set ''offset'' off u3 in
         bind_exn (if truthy (p_state a)
                   then bind_exn (js_String P (p_state a)) (\<lambda>v.
                          Inr (usp_append ''filters[State]'' v u4))
                   else Inr u4) (\<lambda>u5.
         bind_exn (if truthy (p_district a)
                   then bind_exn (js_String P (p_district a)) (\<lambda>v.
                          Inr (usp_append ''filters[District]'' v u5))
                   else Inr u5) (\<lambda>u6.
         (if truthy (p_commodity a)
          then bind_exn (js_String P (p_commodity a)) (\<lambda>v.
                 Inr (usp_append ''filters[Commodity]'' v u6))
          else Inr u6))))))"

text \<open>Lines 29, 40 and 43: the request that is fetched, when the entries have been built.\<close>

definition cropPrice_request ::
  "platform \<Rightarrow> string \<Rightarrow> string \<Rightarrow> price_locals \<Rightarrow> exn + fetch_request" where
  "cropPrice_request P API_KEY RESOURCE_ID a =
     (let base = ''https://api.data.gov.in/resource/'' @ encodeURIComponent P RESOURCE_ID
      in bind_exn (cropPrice_urlParams P API_KEY a) (\<lambda>urlParams.
         let url = base @ ''?'' @ URLSearchParams_toString P urlParams
         in Inr \<lparr> fmethod = ''GET'', furl = url, fheaders = [], fbody = None \<rparr>))"

text \<open>Lines 46 to 73: what the handler makes of the upstream response.\<close>

definition cropPrice_finish :: "platform \<Rightarrow> price_locals \<Rightarrow> fetch_response \<Rightarrow> exn + json" where
  "cropPrice_finish P a res =
     (if \<not> ok res
      then Inr (error_result (''HTTP '' @ show_nat (rstatus res) @
                              '' fetching data.gov.in: '' @ rtext res))
      else case JSON_parse P (rtext res) of
             Inl err \<Rightarrow> Inr (error_result (''Invalid JSON response: '' @ rtext res))
           | Inr json \<Rightarrow>
               bind_exn (getprop json ''records'') (\<lambda>r.
               let records = js_or r (JArr []) in
               bind_exn (getprop json ''total'') (\<lambda>t.
               bind_exn (getprop records ''length'') (\<lambda>n.
               let total = js_or t n in
               Inr (success_result (JObj
                 [(''records'', records),
                  (''total'', total),
                  (''limit'', p_limit a),
                  (''offset'', p_offset a),
                  (''query'', JObj [(''state'', p_state a),
                                    (''district'', p_district a),
                                    (''commodity'', p_commodity a)])]))))))"

definition default_resource_id :: string where
  "default_resource_id = ''35985678-0d79-46b4-9ed6-6f13308a1d24''"

text \<open>Line 16: \<^verbatim>\<open>process.env.DATAGOVIN_RESOURCE_ID ?? "35985678-..."\<close>.\<close>

definition RESOURCE_ID :: "platform \<Rightarrow> string" where
  "RESOURCE_ID P = (case env P ''DATAGOVIN_RESOURCE_ID'' of
                      None \<Rightarrow> default_resource_id | Some r \<Rightarrow> r)"

definition cropPriceHandler :: "platform \<Rightarrow> json \<Rightarrow> json \<times> fetch_request list" where
  "cropPriceHandler P params =
     (let API_KEY = env P ''DATAGOVIN_API_KEY''
      in if env_missing API_KEY
         then (error_result ''Configuration error: DATAGOVIN_API_KEY not set in environment.'', [])
         else case cropPrice_locals params of
                Inl err \<Rightarrow> (server_error err, [])
              | Inr a \<Rightarrow>
                  (case cropPrice_request P (the API_KEY) (RESOURCE_ID P) a of
                     Inl err \<Rightarrow> (server_error err, [])
                   | Inr req \<Rightarrow>
                       (case fetch P req of
                          Inl err \<Rightarrow> (server_error err, [req])
                        | Inr res \<Rightarrow>
                            (case cropPrice_finish P a res of
                               Inl err \<Rightarrow> (server_error err, [req])
                             | Inr result \<Rightarrow> (result, [req])))))"

subsection \<open>Search\<close>

text \<open>\<^verbatim>\<open>s.substring(a, b)\<close> on a string.\<close>

definition js_substring :: "string \<Rightarrow> nat \<Rightarrow> nat \<Rightarrow> string" where
  "js_substring s a b = take (max a b - min a b) (drop (min a b) s)"

text \<open>
  \<^verbatim>\<open>t?.substring(a, b)\<close>: the optional chain gives \<^verbatim>\<open>undefined\<close> on \<^verbatim>\<open>null\<close> and
  \<^verbatim>\<open>undefined\<close>; a string has the method; any other JSON value has no callable
  \<^verbatim>\<open>substring\<close>, and the call throws. \<open>src\<close> is the text of the receiver.
\<close>

definition opt_substring :: "string \<Rightarrow> json \<Rightarrow> nat \<Rightarrow> nat \<Rightarrow> exn + json" where
  "opt_substring src t a b =
     (if nullish t then Inr JUndefined
      else case t of
             JStr s \<Rightarrow> Inr (JStr (js_substring s a b))
           | _ \<Rightarrow> Inl (TypeError (src @ ''?.substring is not a function'')))"

text \<open>\<^verbatim>\<open>t?.length\<close>.\<close>

definition opt_length :: "json \<Rightarrow> json" where
  "opt_length t = (if nullish t then JUndefined else prop_of t ''length'')"

text \<open>
  \<^verbatim>\<open>x > n\<close> for a number \<open>n\<close>: \<^verbatim>\<open>undefined\<close> converts to NaN, and every comparison with
  NaN is false. A string, an array or an object would be converted to a number first;
  none reaches the one comparison of the server, whose left side is \<^verbatim>\<open>t?.length\<close>
  after \<^verbatim>\<open>t?.substring\<close> has returned.
\<close>

definition js_gt :: "json \<Rightarrow> int \<Rightarrow> bool" where
  "js_gt x n =
     (case x of
        JNum k \<Rightarrow> k > n
      | JNull \<Rightarrow> 0 > n
      | JBool b \<Rightarrow> (if b then 1 else 0) > n
      | _ \<Rightarrow> False)"

text \<open>\<^verbatim>\<open>x + s\<close> with a string on the right: the concatenation of \<^verbatim>\<open>String(x)\<close> and \<open>s\<close>.\<close>

definition js_concat :: "platform \<Rightarrow> json \<Rightarrow> string \<Rightarrow> exn + json" where
  "js_concat P x s = bind_exn (js_String P x) (\<lambda>t. Inr (JStr (t @ s)))"

text \<open>The callback of \<^verbatim>\<open>results.map\<close> (lines 139 to 145).\<close>

definition mapResult :: "platform \<Rightarrow> json \<Rightarrow> exn + json" where
  "mapResult P result =
     bind_exn (getprop result ''title'') (\<lambda>title.
     bind_exn (getprop result ''url'') (\<lambda>url.
     bind_exn (getprop result ''text'') (\<lambda>t.
     bind_exn (opt_substring ''result.text'' t 0 500) (\<lambda>sub.
     bind_exn (js_concat P sub (if js_gt (opt_length t) 500 then ''...'' else [])) (\<lambda>txt.
     bind_exn (getprop result ''score'') (\<lambda>score.
     bind_exn (getprop result ''published_date'') (\<lambda>published_date.
       Inr (JObj [(''title'', title),
                  (''url'', url),
                  (''text'', txt),
                  (''score'', score),
                  (''published_date'', published_date)]))))))))"

text \<open>A callback that may throw, over a list, left to right.\<close>

fun map_exn :: "('a \<Rightarrow> exn + 'b) \<Rightarrow> 'a list \<Rightarrow> exn + 'b list" where
  "map_exn f [] = Inr []"
| "map_exn f (x # xs) =
     bind_exn (f x) (\<lambda>y. bind_exn (map_exn f xs) (\<lambda>ys. Inr (y # ys)))"

text \<open>
  \<^verbatim>\<open>v.map(f)\<close>: only an array has the method; on any other JSON value that is neither
  \<^verbatim>\<open>null\<close> nor \<^verbatim>\<open>undefined\<close> the call throws.
\<close>

definition call_map :: "string \<Rightarrow> json \<Rightarrow> (json \<Rightarrow> exn + json) \<Rightarrow> exn + json" where
  "call_map src v f =
     bind_exn (getprop v ''map'') (\<lambda>_.
       case v of
         JArr xs \<Rightarrow> bind_exn (map_exn f xs) (\<lambda>ys. Inr (JArr ys))
       | _ \<Rightarrow> Inl (TypeError (src @ ''.map is not a function'')))"

record search_locals =
  s_query :: json
  s_num_results :: json
  s_include_domains :: json
  s_exclude_domains :: json
  s_start_crawl_date :: json
  s_end_crawl_date :: json

text \<open>Line 92: the default of \<^verbatim>\<open>num_results\<close> applies to \<^verbatim>\<open>undefined\<close> only.\<close>

definition search_params :: "json \<Rightarrow> exn + search_locals" where
  "search_params params =
     bind_exn (destructure ''query'' ''params'' params) (\<lambda>_.
       Inr \<lparr> s_query = prop_of params ''query'',
             s_num_results = (if prop_of params ''num_results'' = JUndefined then JNum 5
                              else prop_of params ''num_results''),
             s_include_domains = prop_of params ''include_domains'',
             s_exclude_domains = prop_of params ''exclude_domains'',
             s_start_crawl_date = prop_of params ''start_crawl_date'',
             s_end_crawl_date = prop_of params ''end_crawl_date'' \<rparr>)"

text \<open>Lines 95 to 107: \<^verbatim>\<open>requestBody\<close>.\<close>

definition search_requestBody :: "search_locals \<Rightarrow> json" where
  "search_requestBody a =
     (let b0 = [(''query'', s_query a),
                (''num_results'', s_num_results a),
                (''use_autoprompt'', JBool True),
                (''contents'', JObj [(''text'', JBool True)])];
          b1 = (if truthy (s_include_domains a)
                then obj_set ''include_domains'' (s_include_domains a) b0 else b0);
          b2 = (if truthy (s_exclude_domains a)
                then obj_set ''exclude_domains'' (s_exclude_domains a) b1 else b1);
          b3 = (if truthy (s_start_crawl_date a)
                then obj_set ''start_crawl_date'' (s_start_crawl_date a) b2 else b2);
          b4 = (if truthy (s_end_crawl_date a)
                then obj_set ''end_crawl_date'' (s_end_crawl_date a) b3 else b3)
      in JObj b4)"

definition search_request :: "platform \<Rightarrow> string \<Rightarrow> search_locals \<Rightarrow> fetch_request" where
  "search_request P API_KEY a =
     \<lparr> fmethod = ''POST'',
       furl = ''https://api.exa.ai/search'',
       fheaders = [(''Content-Type'', ''application/json''), (''x-api-key'', API_KEY)],
       fbody = Some (JSON_stringify P (search_requestBody a) 0) \<rparr>"

text \<open>Lines 120 to 149.\<close>

definition search_finish :: "platform \<Rightarrow> search_locals \<Rightarrow> fetch_response \<Rightarrow> exn + json" where
  "search_finish P a res =
     (if \<not> ok res
      then Inr (error_result (''HTTP '' @ show_nat (rstatus res) @
                              '' fetching EXA API: '' @ rtext res))
      else case JSON_parse P (rtext res) of
             Inl err \<Rightarrow> Inr (error_result (''Invalid JSON response from EXA: '' @ rtext res))
           | Inr json \<Rightarrow>
               bind_exn (getprop json ''results'') (\<lambda>r.
               let results = js_or r (JArr []) in
               bind_exn (call_map ''results'' results (mapResult P)) (\<lambda>mapped.
               bind_exn (getprop results ''length'') (\<lambda>n.
               Inr (success_result (JObj
                 [(''results'', mapped),
                  (''total_results'', n),
                  (''query'', s_query a)]))))))"

definition searchHandler :: "platform \<Rightarrow> json \<Rightarrow> json \<times> fetch_request list" where
  "searchHandler P params =
     (let API_KEY = env P ''EXA_API_KEY''
      in if env_missing API_KEY
         then (error_result ''Configuration error: EXA_API_KEY not set in environment.'', [])
         else case search_params params of
                Inl err \<Rightarrow> (server_error err, [])
              | Inr a \<Rightarrow>
                  let req = search_request P (the API_KEY) a in
                  (case fetch P req of
                     Inl err \<Rightarrow> (server_error err, [req])
                   | Inr res \<Rightarrow>
                       (case search_finish P a res of
                          Inl err \<Rightarrow> (server_error err, [req])
                        | Inr result \<Rightarrow> (result, [req]))))"

section \<open>The registry\<close>

type_synonym handler = "platform \<Rightarrow> json \<Rightarrow> json \<times> fetch_request list"

text \<open>The \<^verbatim>\<open>Map\<close> of handlers, in insertion order.\<close>

definition toolHandlers :: "(string \<times> handler) list" where
  "toolHandlers = [(''crop-price'', cropPriceHandler), (''search'', searchHandler)]"

text \<open>\<^verbatim>\<open>toolHandlers.get(name)\<close>: the keys are strings, so no other value finds one.\<close>

definition toolHandlers_get :: "json \<Rightarrow> handler option" where
  "toolHandlers_get name = (case name of JStr s \<Rightarrow> map_of toolHandlers s | _ \<Rightarrow> None)"

text \<open>\<^verbatim>\<open>Array.from(toolHandlers.keys())\<close>.\<close>

definition toolHandlers_keys :: json where
  "toolHandlers_keys = JArr (map (\<lambda>p. JStr (fst p)) toolHandlers)"

section \<open>The RPC front-end\<close>

text \<open>
  The hybrid server (the second \<^verbatim>\<open>server.ts\<close>, carried by \<^verbatim>\<open>src/README.md\<close>) has the two
  handlers above, unchanged, and adds the JSON-RPC endpoint.
\<close>

definition mcpTools :: json where
  "mcpTools = JArr
     [JObj [(''name'', JStr ''crop-price''),
            (''description'', JStr ''Fetch crop price data from data.gov.in with state/district/commodity filters''),
            (''inputSchema'', JObj
               [(''type'', JStr ''object''),
                (''properties'', JObj
                   [(''state'', JObj [(''type'', JStr ''string''),
                       (''description'', JStr ''State filter (e.g., Punjab, Maharashtra)'')]),
                    (''district'', JObj [(''type'', JStr ''string''),
                       (''description'', JStr ''District filter (e.g., Ludhiana, Mumbai)'')]),
                    (''commodity'', JObj [(''type'', JStr ''string''),
                       (''description'', JStr ''Commodity filter (e.g., Wheat, Rice, Cotton)'')]),
                    (''limit'', JObj [(''type'', JStr ''number''),
                       (''description'', JStr ''Max records to return (default: 50)''),
                       (''default'', JNum 50)]),
                    (''offset'', JObj [(''type'', JStr ''number''),
                       (''description'', JStr ''Records to skip (default: 0)''),
                       (''default'', JNum 0)])])])],
      JObj [(''name'', JStr ''search''),
            (''description'', JStr ''Search the web for agricultural information using EXA API''),
            (''inputSchema'', JObj
               [(''type'', JStr ''object''),
                (''properties'', JObj
                   [(''query'', JObj [(''type'', JStr ''string''),
                       (''description'', JStr ''Search query for agricultural information'')]),
                    (''num_results'', JObj [(''type'', JStr ''number''),
                       (''description'', JStr ''Number of results to return (default: 5)''),
                       (''default'', JNum 5)]),
                    (''include_domains'', JObj [(''type'', JStr ''array''),
                       (''items'', JObj [(''type'', JStr ''string'')]),
                       (''description'', JStr ''Domains to include in search'')]),
                    (''exclude_domains'', JObj [(''type'', JStr ''array''),
                       (''items'', JObj [(''type'', JStr ''string'')]),
                       (''description'', JStr ''Domains to exclude from search'')])]),
                (''required'', JArr [JStr ''query''])])]]"

definition rpc_result :: "json \<Rightarrow> json \<Rightarrow> json" where
  "rpc_result i r = JObj [(''jsonrpc'', JStr ''2.0''), (''id'', i), (''result'', r)]"

definition rpc_error :: "json \<Rightarrow> json \<Rightarrow> json" where
  "rpc_error i e = JObj [(''jsonrpc'', JStr ''2.0''), (''id'', i), (''error'', e)]"

text \<open>
  The \<^verbatim>\<open>try\<close> block of \<^verbatim>\<open>handleMCPRequest\<close>. Reading \<^verbatim>\<open>request.method\<close> throws on a
  \<^verbatim>\<open>null\<close> request; once it has been read, \<^verbatim>\<open>request.id\<close> and \<^verbatim>\<open>request.params\<close> are
  reads on a value that has properties. The handler's result is an object, read the
  same way.
\<close>

definition handleMCPRequest_try :: "platform \<Rightarrow> json \<Rightarrow> (exn + json) \<times> fetch_request list" where
  "handleMCPRequest_try P request =
     (case getprop request ''method'' of
        Inl err \<Rightarrow> (Inl err, [])
      | Inr m \<Rightarrow>
          let rid = prop_of request ''id'' in
          if m = JStr ''initialize'' then
            (Inr (rpc_result rid (JObj
               [(''protocolVersion'', JStr ''2024-11-05''),
                (''capabilities'', JObj [(''tools'', JObj [])]),
                (''serverInfo'', JObj [(''name'', JStr ''agricultural-ai-mcp''),
                                       (''version'', JStr ''1.0.0'')])])), [])
          else if m = JStr ''tools/list'' then
            (Inr (rpc_result rid (JObj [(''tools'', mcpTools)])), [])
          else if m = JStr ''tools/call'' then
            (case destructure ''name'' ''request.params'' (prop_of request ''params'') of
               Inl err \<Rightarrow> (Inl err, [])
             | Inr ps \<Rightarrow>
                 let name = prop_of ps ''name'';
                     args = prop_of ps ''arguments''
                 in (case toolHandlers_get name of
                       None \<Rightarrow>
                         (bind_exn (js_String P name) (\<lambda>shown.
                            Inr (rpc_error rid (JObj
                              [(''code'', JNum (- 32601)),
                               (''message'', JStr (''Tool '' @ [CHR 0x27] @ shown @
                                                   [CHR 0x27] @ '' not found'')),
                               (''data'', JObj [(''availableTools'', toolHandlers_keys)])]))),
                          [])
                     | Some handler \<Rightarrow>
                         (case handler P args of
                            (result, calls) \<Rightarrow>
                              if truthy (prop_of result ''error'')
                              then (Inr (rpc_error rid (JObj
                                      [(''code'', JNum (- 32603)),
                                       (''message'', prop_of result ''error'')])), calls)
                              else (Inr (rpc_result rid (JObj
                                      [(''content'', JArr
                                         [JObj [(''type'', JStr ''text''),
                                                (''text'', JStr (JSON_stringify P
                                                   (prop_of result ''data'') 2))]])])), calls))))
          else
            (bind_exn (js_String P m) (\<lambda>shown.
               Inr (rpc_error rid (JObj
                 [(''code'', JNum (- 32601)),
                  (''message'', JStr (''Method '' @ [CHR 0x27] @ shown @
                                      [CHR 0x27] @ '' not found''))]))), []))"

text \<open>
  \<^verbatim>\<open>handleMCPRequest\<close>: the \<^verbatim>\<open>catch\<close> block reads \<^verbatim>\<open>request.id\<close> again, which throws
  in its turn when the request is \<^verbatim>\<open>null\<close>; that throw leaves the function.
\<close>

definition handleMCPRequest :: "platform \<Rightarrow> json \<Rightarrow> (exn + json) \<times> fetch_request list" where
  "handleMCPRequest P request =
     (case handleMCPRequest_try P request of
        (Inr response, calls) \<Rightarrow> (Inr response, calls)
      | (Inl err, calls) \<Rightarrow>
          (bind_exn (getprop request ''id'') (\<lambda>rid.
             Inr (rpc_error rid (JObj
               [(''code'', JNum (- 32603)),
                (''message'', JStr (''Internal error: '' @ String_exn err))]))), calls))"

section \<open>The HTTP listener\<close>

record http_request =
  req_method :: string
  req_url :: string
  req_body :: string

record http_response =
  res_status :: nat
  res_headers :: "(string \<times> string) list"
  res_body :: string

definition cors_headers :: "(string \<times> string) list" where
  "cors_headers =
     [(''Access-Control-Allow-Origin'', ''*''),
      (''Access-Control-Allow-Methods'', ''GET, POST, OPTIONS''),
      (''Access-Control-Allow-Headers'', ''Content-Type'')]"

text \<open>\<^verbatim>\<open>res.writeHead(st, {'Content-Type': 'application/json'}); res.end(JSON.stringify(v))\<close>.\<close>

definition json_response :: "platform \<Rightarrow> nat \<Rightarrow> json \<Rightarrow> http_response" where
  "json_response P st v =
     \<lparr> res_status = st,
       res_headers = cors_headers @ [(''Content-Type'', ''application/json'')],
       res_body = JSON_stringify P v 0 \<rparr>"

text \<open>\<^verbatim>\<open>s.split(sep)\<close> for a separator that is not empty.\<close>

fun split_from :: "string \<Rightarrow> string \<Rightarrow> string \<Rightarrow> string list" where
  "split_from sep acc [] = [acc]"
| "split_from sep acc (c # cs) =
     (if sep \<noteq> [] \<and> prefix sep (c # cs)
      then acc # split_from sep [] (drop (length sep - 1) cs)
      else split_from sep (acc @ [c]) cs)"

definition js_split :: "string \<Rightarrow> string \<Rightarrow> string list" where
  "js_split s sep = split_from sep [] s"

text \<open>\<^verbatim>\<open>xs[i]\<close> on an array of strings: \<^verbatim>\<open>undefined\<close> out of range.\<close>

definition js_index :: "string list \<Rightarrow> nat \<Rightarrow> json" where
  "js_index xs i = (if i < length xs then JStr (xs ! i) else JUndefined)"

text \<open>\<^verbatim>\<open>PORT = process.env.PORT || 10000\<close>.\<close>

definition PORT :: "platform \<Rightarrow> json" where
  "PORT P = (if env_missing (env P ''PORT'') then JNum 10000 else JStr (the (env P ''PORT'')))"

definition health_document :: "platform \<Rightarrow> json" where
  "health_document P = JObj
     [(''status'', JStr ''healthy''),
      (''server'', JStr ''agricultural-ai-mcp''),
      (''protocols'', JArr [JStr ''http'', JStr ''mcp'']),
      (''tools'', JArr [JStr ''crop-price'', JStr ''search'']),
      (''timestamp'', JStr (now P)),
      (''environment'', JObj
         [(''datagovin_key_set'', JBool (\<not> env_missing (env P ''DATAGOVIN_API_KEY''))),
          (''exa_key_set'', JBool (\<not> env_missing (env P ''EXA_API_KEY''))),
          (''port'', PORT P)]),
      (''mcp'', JObj
         [(''endpoint'', JStr ''/mcp''),
          (''protocol_version'', JStr ''2024-11-05''),
          (''capabilities'', JArr [JStr ''tools''])])]"

definition info_document :: json where
  "info_document = JObj
     [(''name'', JStr ''Agricultural AI MCP Server''),
      (''version'', JStr ''1.0.0''),
      (''description'', JStr ''Hybrid server: HTTP API + MCP Protocol for Docker MCP Gateway integration''),
      (''protocols'', JObj
         [(''http'', JStr ''Direct HTTP API access''),
          (''mcp'', JStr ''Model Context Protocol via /mcp endpoint'')]),
      (''tools'', JArr
         [JObj [(''name'', JStr ''crop-price''),
                (''description'', JStr ''Fetch crop price data from data.gov.in''),
                (''endpoint'', JStr ''/tools/crop-price''),
                (''method'', JStr ''POST''),
                (''parameters'', JObj
                   [(''state'', JStr ''string (optional) - State filter (e.g., Punjab, Maharashtra)''),
                    (''district'', JStr ''string (optional) - District filter (e.g., Ludhiana, Mumbai)''),
                    (''commodity'', JStr ''string (optional) - Commodity filter (e.g., Wheat, Rice, Cotton)''),
                    (''limit'', JStr ''number (optional) - Max records to return (default: 50)''),
                    (''offset'', JStr ''number (optional) - Records to skip (default: 0)'')])],
          JObj [(''name'', JStr ''search''),
                (''description'', JStr ''Search the web for agricultural information''),
                (''endpoint'', JStr ''/tools/search''),
                (''method'', JStr ''POST''),
                (''parameters'', JObj
                   [(''query'', JStr ''string (required) - Search query''),
                    (''num_results'', JStr ''number (optional) - Number of results (default: 5)''),
                    (''include_domains'', JStr ''array (optional) - Domains to include''),
                    (''exclude_domains'', JStr ''array (optional) - Domains to exclude'')])]]),
      (''usage'', JObj
         [(''http'', JStr ''POST to /tools/{tool-name} with JSON body containing tool parameters''),
          (''mcp'', JStr ''POST to /mcp with MCP protocol JSON-RPC requests'')]),
      (''examples'', JObj
         [(''crop-price'', JObj
             [(''url'', JStr ''/tools/crop-price''),
              (''method'', JStr ''POST''),
              (''body'', JObj [(''state'', JStr ''Punjab''), (''commodity'', JStr ''Wheat''),
                               (''limit'', JNum 10)])]),
          (''search'', JObj
             [(''url'', JStr ''/tools/search''),
              (''method'', JStr ''POST''),
              (''body'', JObj [(''query'', JStr ''Indian agriculture news 2024''),
                               (''num_results'', JNum 5)])])])]"

text \<open>
  The \<^verbatim>\<open>/mcp\<close> endpoint, once the body has arrived: any throw, from the parser or from
  \<^verbatim>\<open>handleMCPRequest\<close>, is answered as a parse error with the id 0.
\<close>

definition mcp_parse_error :: "platform \<Rightarrow> exn \<Rightarrow> http_response" where
  "mcp_parse_error P err =
     json_response P 400 (rpc_error (JNum 0) (JObj
       [(''code'', JNum (- 32700)),
        (''message'', JStr (''Parse error: '' @ String_exn err))]))"

definition mcp_endpoint :: "platform \<Rightarrow> string \<Rightarrow> http_response \<times> fetch_request list" where
  "mcp_endpoint P body =
     (case JSON_parse P body of
        Inl err \<Rightarrow> (mcp_parse_error P err, [])
      | Inr mcpRequest \<Rightarrow>
          (case handleMCPRequest P mcpRequest of
             (Inl err, calls) \<Rightarrow> (mcp_parse_error P err, calls)
           | (Inr mcpResponse, calls) \<Rightarrow> (json_response P 200 mcpResponse, calls)))"

text \<open>
  The \<^verbatim>\<open>/tools/\<close> endpoint, once the body has arrived. The tool name is a string or
  \<^verbatim>\<open>undefined\<close>, so the template of the 404 message cannot throw; the model keeps the
  \<^verbatim>\<open>catch\<close> for it all the same.
\<close>

definition tools_endpoint :: "platform \<Rightarrow> string \<Rightarrow> string \<Rightarrow> http_response \<times> fetch_request list" where
  "tools_endpoint P url body =
     (let toolName = js_index (js_split url ''/tools/'') 1 in
      case JSON_parse P (if body = [] then ''{}'' else body) of
        Inl err \<Rightarrow>
          (json_response P 400
             (JObj [(''error'', JStr (''Invalid request: '' @ String_exn err))]), [])
      | Inr params \<Rightarrow>
          (case toolHandlers_get toolName of
             None \<Rightarrow>
               (case js_String P toolName of
                  Inl err \<Rightarrow>
                    (json_response P 400
                       (JObj [(''error'', JStr (''Invalid request: '' @ String_exn err))]), [])
                | Inr shown \<Rightarrow>
                    (json_response P 404 (JObj
                       [(''error'', JStr (''Tool '' @ [CHR 0x27] @ shown @
                                          [CHR 0x27] @ '' not found'')),
                        (''available_tools'', toolHandlers_keys)]), []))
           | Some handler \<Rightarrow>
               (case handler P params of
                  (result, calls) \<Rightarrow> (json_response P 200 result, calls))))"

definition httpServer :: "platform \<Rightarrow> http_request \<Rightarrow> http_response \<times> fetch_request list" where
  "httpServer P req =
     (if req_method req = ''OPTIONS''
      then (\<lparr> res_status = 200, res_headers = cors_headers, res_body = [] \<rparr>, [])
      else if req_url req = ''/mcp'' \<and> req_method req = ''POST''
      then mcp_endpoint P (req_body req)
      else if req_url req = ''/health''
      then (json_response P 200 (health_document P), [])
      else if req_url req = ''/''
      then (json_response P 200 info_document, [])
      else if prefix ''/tools/'' (req_url req) \<and> req_method req = ''POST''
      then tools_endpoint P (req_url req) (req_body req)
      else (json_response P 404 (JObj [(''error'', JStr ''Not found'')]), []))"

section \<open>Sample platforms\<close>

text \<open>
  Concrete platforms, on which the theorems below are instantiated. The parser is a
  table from texts to values; the printer writes compact JSON without escapes and
  without indentation, leaves out the properties that are \<^verbatim>\<open>undefined\<close> and writes
  \<^verbatim>\<open>null\<close> for such an element of an array; every number is printed in decimal
  digits (the samples hold none beyond the safe integers); the query string joins
  \<open>key=value\<close> with \<open>&\<close>, without escapes. The network is a parameter.
\<close>

definition sample_parse :: "(string \<times> json) list \<Rightarrow> string \<Rightarrow> exn + json" where
  "sample_parse tbl s =
     (case map_of tbl s of
        Some v \<Rightarrow> Inr v
      | None \<Rightarrow> Inl (Exn ''SyntaxError'' ''Unexpected token''))"

fun join_commas :: "string list \<Rightarrow> string" where
  "join_commas [] = []"
| "join_commas [x] = x"
| "join_commas (x # y # ys) = x @ '','' @ join_commas (y # ys)"

fun show_json :: "json \<Rightarrow> string" where
  "show_json JUndefined = ''undefined''"
| "show_json JNull = ''null''"
| "show_json (JBool b) = (if b then ''true'' else ''false'')"
| "show_json (JNum n) = show_int n"
| "show_json (JStr s) = [CHR 0x22] @ s @ [CHR 0x22]"
| "show_json (JArr xs) =
     ''['' @ join_commas (map (\<lambda>x. if x = JUndefined then ''null'' else show_json x) xs) @ '']''"
| "show_json (JObj fs) =
     ''{'' @ join_commas (map (\<lambda>p. [CHR 0x22] @ fst p @ [CHR 0x22] @ '':'' @ show_json (snd p))
                            (filter (\<lambda>p. snd p \<noteq> JUndefined) fs)) @ ''}''"

fun sample_query_string :: "(string \<times> string) list \<Rightarrow> string" where
  "sample_query_string [] = []"
| "sample_query_string [p] = fst p @ ''='' @ snd p"
| "sample_query_string (p # q # ps) = fst p @ ''='' @ snd p @ ''&'' @ sample_query_string (q # ps)"

definition sample_env :: "string \<Rightarrow> string option" where
  "sample_env = [''DATAGOVIN_API_KEY'' \<mapsto> ''sample-key'', ''EXA_API_KEY'' \<mapsto> ''sample-exa-key'']"

definition sample_platform ::
  "(string \<Rightarrow> string option) \<Rightarrow> (string \<times> json) list \<Rightarrow> (fetch_request \<Rightarrow> exn + fetch_response) \<Rightarrow> platform" where
  "sample_platform e tbl net =
     \<lparr> env = e,
       JSON_parse = sample_parse tbl,
       JSON_stringify = (\<lambda>v n. show_json v),
       Number_toString = show_int,
       encodeURIComponent = (\<lambda>s. s),
       URLSearchParams_toString = sample_query_string,
       fetch = net,
       now = ''2024-01-01T00:00:00.000Z'' \<rparr>"

text \<open>A network that is down, and an upstream that answers every request with one body.\<close>

definition no_network :: "fetch_request \<Rightarrow> exn + fetch_response" where
  "no_network req = Inl (Exn ''FetchError'' ''network unreachable'')"

definition upstream_ok :: "string \<Rightarrow> fetch_request \<Rightarrow> exn + fetch_response" where
  "upstream_ok body req = Inr \<lparr> rstatus = 200, rtext = body \<rparr>"

text \<open>An upstream price body whose \<^verbatim>\<open>total\<close> is 0 although it carries one record.\<close>

definition wheat_record :: json where
  "wheat_record = JObj [(''State'', JStr ''Punjab''), (''Commodity'', JStr ''Wheat''),
                        (''Price'', JStr ''2100'')]"

definition zero_total_text :: string where
  \<open>zero_total_text =
     ''{"records":[{"State":"Punjab","Commodity":"Wheat","Price":"2100"}],"total":0}''\<close>

definition zero_total_fields :: "(string \<times> json) list" where
  "zero_total_fields = [(''records'', JArr [wheat_record]), (''total'', JNum 0)]"

definition zero_total_platform :: platform where
  "zero_total_platform =
     sample_platform sample_env [(zero_total_text, JObj zero_total_fields)]
       (upstream_ok zero_total_text)"

text \<open>An upstream price body with one record and the total 1.\<close>

definition one_total_text :: string where
  \<open>one_total_text =
     ''{"records":[{"State":"Punjab","Commodity":"Wheat","Price":"2100"}],"total":1}''\<close>

definition one_total_fields :: "(string \<times> json) list" where
  "one_total_fields = [(''records'', JArr [wheat_record]), (''total'', JNum 1)]"

definition one_total_platform :: platform where
  "one_total_platform =
     sample_platform sample_env [(one_total_text, JObj one_total_fields)]
       (upstream_ok one_total_text)"

text \<open>Parameter mappings of the price tool.\<close>

definition empty_state_fields :: "(string \<times> json) list" where
  "empty_state_fields = [(''state'', JStr [])]"

definition punjab_wheat_fields :: "(string \<times> json) list" where
  "punjab_wheat_fields = [(''state'', JStr ''Punjab''), (''commodity'', JStr ''Wheat''),
                          (''limit'', JNum 5)]"

text \<open>A configured server without network.\<close>

definition offline_platform :: platform where
  "offline_platform = sample_platform sample_env [] no_network"

text \<open>Search result entries: a short text, a text of 500 characters, one of 501, none.\<close>

definition short_entry :: "(string \<times> json) list" where
  "short_entry = [(''title'', JStr ''Wheat prices''), (''url'', JStr ''https://example.org/a''),
                  (''text'', JStr ''Wheat prices rose.''), (''score'', JNum 1)]"

definition entry_of_length :: "nat \<Rightarrow> (string \<times> json) list" where
  "entry_of_length n = [(''title'', JStr ''Rice''), (''text'', JStr (replicate n CHR ''a''))]"

definition textless_entry :: "(string \<times> json) list" where
  "textless_entry = [(''title'', JStr ''Cotton''), (''url'', JStr ''https://example.org/c'')]"

text \<open>Request bodies, and a server that parses them and reaches the price upstream.\<close>

definition call_without_params_text :: string where
  \<open>call_without_params_text = ''{"jsonrpc":"2.0","id":7,"method":"tools/call"}''\<close>

definition call_without_params :: "(string \<times> json) list" where
  "call_without_params = [(''jsonrpc'', JStr ''2.0''), (''id'', JNum 7), (''method'', JStr ''tools/call'')]"

definition call_unknown_text :: string where
  \<open>call_unknown_text =
     ''{"jsonrpc":"2.0","id":8,"method":"tools/call","params":{"name":"weather","arguments":{}}}''\<close>

definition call_unknown :: "(string \<times> json) list" where
  "call_unknown = [(''jsonrpc'', JStr ''2.0''), (''id'', JNum 8), (''method'', JStr ''tools/call''),
                   (''params'', JObj [(''name'', JStr ''weather''), (''arguments'', JObj [])])]"

definition call_price_text :: string where
  \<open>call_price_text =
     ''{"jsonrpc":"2.0","id":9,"method":"tools/call","params":{"name":"crop-price","arguments":{"state":"Punjab","commodity":"Wheat","limit":5}}}''\<close>

definition call_price :: "(string \<times> json) list" where
  "call_price = [(''jsonrpc'', JStr ''2.0''), (''id'', JNum 9), (''method'', JStr ''tools/call''),
                 (''params'', JObj [(''name'', JStr ''crop-price''),
                                    (''arguments'', JObj punjab_wheat_fields)])]"

definition punjab_wheat_text :: string where
  \<open>punjab_wheat_text = ''{"state":"Punjab","commodity":"Wheat","limit":5}''\<close>

definition gateway_platform :: platform where
  "gateway_platform =
     sample_platform sample_env
       [(''{}'', JObj []),
        (punjab_wheat_text, JObj punjab_wheat_fields),
        (call_without_params_text, JObj call_without_params),
        (call_unknown_text, JObj call_unknown),
        (call_price_text, JObj call_price),
        (one_total_text, JObj one_total_fields)]
       (upstream_ok one_total_text)"

text \<open>A search upstream that answers with four entries, and a query.\<close>

definition search_reply_text :: string where
  \<open>search_reply_text =
     ''{"results":[{"title":"Wheat prices","url":"https://example.org/a","text":"Wheat prices rose.","score":1},'' @
     ''{"title":"Rice","text":"'' @ replicate 500 CHR ''a'' @ ''"},'' @
     ''{"title":"Rice","text":"'' @ replicate 501 CHR ''a'' @ ''"},'' @
     ''{"title":"Cotton","url":"https://example.org/c"}]}''\<close>

definition search_reply_entries :: "json list" where
  "search_reply_entries =
     [JObj short_entry, JObj (entry_of_length 500), JObj (entry_of_length 501),
      JObj textless_entry]"

definition search_reply_fields :: "(string \<times> json) list" where
  "search_reply_fields = [(''results'', JArr search_reply_entries)]"

definition search_platform :: platform where
  "search_platform =
     sample_platform sample_env [(search_reply_text, JObj search_reply_fields)]
       (upstream_ok search_reply_text)"

definition wheat_query :: json where
  "wheat_query = JObj [(''query'', JStr ''wheat prices'')]"

definition wheat_query_locals :: search_locals where
  "wheat_query_locals =
     \<lparr> s_query = JStr ''wheat prices'', s_num_results = JNum 5,
       s_include_domains = JUndefined, s_exclude_domains = JUndefined,
       s_start_crawl_date = JUndefined, s_end_crawl_date = JUndefined \<rparr>"

section \<open>Basic facts\<close>

lemma bind_exn_eq_Inr: "bind_exn m f = Inr r \<longleftrightarrow> (\<exists>x. m = Inr x \<and> f x = Inr r)"
  by (cases m) (simp_all add: bind_exn_def)

lemma bind_exn_Inr: "bind_exn (Inr x) f = f x"
  by (simp add: bind_exn_def)

lemma bind_exn_Inl: "bind_exn (Inl e) f = Inl e"
  by (simp add: bind_exn_def)

lemma getprop_obj: "getprop (JObj fs) k = Inr (prop_of (JObj fs) k)"
  by (simp add: getprop_def nullish_def)

lemma prop_of_obj: "prop_of (JObj fs) k = (case map_of fs k of None \<Rightarrow> JUndefined | Some v \<Rightarrow> v)"
  by (simp add: prop_of_def)

lemma error_result_eq: "error_result m = error_result m' \<longleftrightarrow> m = m'"
  by (simp add: error_result_def)

lemma error_result_not_success: "error_result m \<noteq> success_result d"
  by (simp add: error_result_def success_result_def)

lemma success_result_eq: "success_result d = success_result d' \<longleftrightarrow> d = d'"
  by (simp add: success_result_def)

lemma server_error_not_success:
  "server_error err \<noteq> success_result d" "success_result d \<noteq> server_error err"
  by (simp_all add: server_error_def error_result_def success_result_def)

lemma Number_String_defaults:
  "Number_String P 50 = ''50''" "Number_String P 0 = ''0''" "Number_String P 5 = ''5''"
  by (simp_all add: Number_String_def MAX_SAFE_INTEGER_def show_int_def show_nat.simps
        digit_char_def)

lemma js_String_defaults:
  "js_String P (JNum 50) = Inr ''50''" "js_String P (JNum 0) = Inr ''0''"
  "js_String P (JNum 5) = Inr ''5''"
  by (simp_all add: Number_String_def MAX_SAFE_INTEGER_def show_int_def show_nat.simps
        digit_char_def)

subsection \<open>The price handler\<close>

lemma cropPrice_locals_ok:
  "\<not> nullish params \<Longrightarrow>
   cropPrice_locals params =
     Inr \<lparr> p_state = prop_of params ''state'',
           p_district = prop_of params ''district'',
           p_commodity = prop_of params ''commodity'',
           p_limit = js_coalesce (prop_of params ''limit'') (JNum 50),
           p_offset = js_coalesce (prop_of params ''offset'') (JNum 0) \<rparr>"
  by (simp add: cropPrice_locals_def destructure_def getprop_def bind_exn_def)

lemma cropPrice_locals_nullish:
  "nullish params \<Longrightarrow> \<exists>err. cropPrice_locals params = Inl err"
  by (simp add: cropPrice_locals_def destructure_def bind_exn_def)

lemma cropPrice_urlParams_Inr:
  assumes "js_String P (p_limit a) = Inr l" and "js_String P (p_offset a) = Inr off"
    and "truthy (p_state a) \<Longrightarrow> js_String P (p_state a) = Inr sS"
    and "truthy (p_district a) \<Longrightarrow> js_String P (p_district a) = Inr sD"
    and "truthy (p_commodity a) \<Longrightarrow> js_String P (p_commodity a) = Inr sC"
  shows "cropPrice_urlParams P k a =
     Inr ([(''api-key'', k), (''format'', ''json''), (''limit'', l), (''offset'', off)]
          @ (if truthy (p_state a) then [(''filters[State]'', sS)] else [])
          @ (if truthy (p_district a) then [(''filters[District]'', sD)] else [])
          @ (if truthy (p_commodity a) then [(''filters[Commodity]'', sC)] else []))"
  using assms
  by (simp add: cropPrice_urlParams_def usp_set_def usp_append_def Let_def bind_exn_def)

lemma cropPrice_urlParams_InrD:
  assumes "cropPrice_urlParams P k a = Inr ps"
  shows "\<exists>l off sS sD sC.
       js_String P (p_limit a) = Inr l \<and> js_String P (p_offset a) = Inr off
     \<and> (truthy (p_state a) \<longrightarrow> js_String P (p_state a) = Inr sS)
     \<and> (truthy (p_district a) \<longrightarrow> js_String P (p_district a) = Inr sD)
     \<and> (truthy (p_commodity a) \<longrightarrow> js_String P (p_commodity a) = Inr sC)
     \<and> ps = [(''api-key'', k), (''format'', ''json''), (''limit'', l), (''offset'', off)]
          @ (if truthy (p_state a) then [(''filters[State]'', sS)] else [])
          @ (if truthy (p_district a) then [(''filters[District]'', sD)] else [])
          @ (if truthy (p_commodity a) then [(''filters[Commodity]'', sC)] else [])"
proof -
  from assms obtain l where l: "js_String P (p_limit a) = Inr l"
    by (auto simp: cropPrice_urlParams_def Let_def bind_exn_eq_Inr)
  from assms obtain off where off: "js_String P (p_offset a) = Inr off"
    by (auto simp: cropPrice_urlParams_def Let_def bind_exn_eq_Inr)
  have s: "\<exists>s. js_String P (p_state a) = Inr s" if "truthy (p_state a)"
    using assms that by (auto simp: cropPrice_urlParams_def Let_def bind_exn_eq_Inr)
  have d: "\<exists>s. js_String P (p_district a) = Inr s" if "truthy (p_district a)"
    using assms that by (auto simp: cropPrice_urlParams_def Let_def bind_exn_eq_Inr)
  have c: "\<exists>s. js_String P (p_commodity a) = Inr s" if "truthy (p_commodity a)"
    using assms that by (auto simp: cropPrice_urlParams_def Let_def bind_exn_eq_Inr)
  define sS where "sS = (case js_String P (p_state a) of Inr s \<Rightarrow> s | Inl e \<Rightarrow> [])"
  define sD where "sD = (case js_String P (p_district a) of Inr s \<Rightarrow> s | Inl e \<Rightarrow> [])"
  define sC where "sC = (case js_String P (p_commodity a) of Inr s \<Rightarrow> s | Inl e \<Rightarrow> [])"
  have s': "truthy (p_state a) \<Longrightarrow> js_String P (p_state a) = Inr sS"
    using s by (auto simp: sS_def)
  have d': "truthy (p_district a) \<Longrightarrow> js_String P (p_district a) = Inr sD"
    using d by (auto simp: sD_def)
  have c': "truthy (p_commodity a) \<Longrightarrow> js_String P (p_commodity a) = Inr sC"
    using c by (auto simp: sC_def)
  from cropPrice_urlParams_Inr [OF l off s' d' c', of k] assms
  have "ps = [(''api-key'', k), (''format'', ''json''), (''limit'', l), (''offset'', off)]
          @ (if truthy (p_state a) then [(''filters[State]'', sS)] else [])
          @ (if truthy (p_district a) then [(''filters[District]'', sD)] else [])
          @ (if truthy (p_commodity a) then [(''filters[Commodity]'', sC)] else [])"
    by simp
  with l off s' d' c' show ?thesis by blast
qed

lemma cropPriceHandler_unconfigured:
  "env_missing (env P ''DATAGOVIN_API_KEY'') \<Longrightarrow>
   cropPriceHandler P params =
     (error_result ''Configuration error: DATAGOVIN_API_KEY not set in environment.'', [])"
  by (simp add: cropPriceHandler_def)

lemma cropPriceHandler_no_request:
  assumes "\<not> env_missing (env P ''DATAGOVIN_API_KEY'')"
    and "cropPrice_locals params = Inl err
         \<or> (\<exists>a. cropPrice_locals params = Inr a
               \<and> cropPrice_request P (the (env P ''DATAGOVIN_API_KEY'')) (RESOURCE_ID P) a = Inl err)"
  shows "cropPriceHandler P params = (server_error err, [])"
  using assms by (auto simp: cropPriceHandler_def)

lemma cropPriceHandler_calls:
  "\<not> env_missing (env P ''DATAGOVIN_API_KEY'') \<Longrightarrow> cropPrice_locals params = Inr a \<Longrightarrow>
   cropPrice_request P (the (env P ''DATAGOVIN_API_KEY'')) (RESOURCE_ID P) a = Inr req \<Longrightarrow>
   snd (cropPriceHandler P params) = [req]"
  by (simp add: cropPriceHandler_def Let_def split: sum.splits)

lemma cropPriceHandler_result:
  assumes "\<not> env_missing (env P ''DATAGOVIN_API_KEY'')" and "cropPrice_locals params = Inr a"
    and "cropPrice_request P (the (env P ''DATAGOVIN_API_KEY'')) (RESOURCE_ID P) a = Inr req"
  shows "(\<exists>err. fst (cropPriceHandler P params) = server_error err)
     \<or> (\<exists>res. fetch P req = Inr res
             \<and> cropPrice_finish P a res = Inr (fst (cropPriceHandler P params)))"
  using assms by (auto simp: cropPriceHandler_def Let_def split: sum.splits)

lemma cropPriceHandler_finish:
  assumes "\<not> env_missing (env P ''DATAGOVIN_API_KEY'')" and "cropPrice_locals params = Inr a"
    and "cropPrice_request P (the (env P ''DATAGOVIN_API_KEY'')) (RESOURCE_ID P) a = Inr req"
    and "fetch P req = Inr res"
    and "cropPrice_finish P a res = Inr r"
  shows "fst (cropPriceHandler P params) = r"
  using assms by (simp add: cropPriceHandler_def Let_def)

lemma cropPrice_request_Inr:
  "cropPrice_request P k rid a = Inr req \<longleftrightarrow>
   (\<exists>ps. cropPrice_urlParams P k a = Inr ps
       \<and> req = \<lparr> fmethod = ''GET'',
                 furl = ''https://api.data.gov.in/resource/'' @ encodeURIComponent P rid @ ''?'' @
                        URLSearchParams_toString P ps,
                 fheaders = [], fbody = None \<rparr>)"
  by (auto simp: cropPrice_request_def Let_def bind_exn_eq_Inr)

lemma cropPrice_finish_echo:
  "cropPrice_finish P a res = Inr (success_result d) \<Longrightarrow>
   prop_of d ''limit'' = p_limit a \<and> prop_of d ''offset'' = p_offset a"
  by (auto simp: cropPrice_finish_def bind_exn_eq_Inr Let_def success_result_def error_result_def
        prop_of_def split: if_splits sum.splits)

lemma cropPriceHandler_issues:
  assumes "\<not> env_missing (env P ''DATAGOVIN_API_KEY'')" and "\<not> nullish params"
    and "js_String P (js_coalesce (prop_of params ''limit'') (JNum 50)) = Inr l"
    and "js_String P (js_coalesce (prop_of params ''offset'') (JNum 0)) = Inr off"
    and "truthy (prop_of params ''state'') \<Longrightarrow> js_String P (prop_of params ''state'') = Inr sS"
    and "truthy (prop_of params ''district'') \<Longrightarrow> js_String P (prop_of params ''district'') = Inr sD"
    and "truthy (prop_of params ''commodity'') \<Longrightarrow> js_String P (prop_of params ''commodity'') = Inr sC"
  shows "snd (cropPriceHandler P params) =
    [\<lparr> fmethod = ''GET'',
       furl = ''https://api.data.gov.in/resource/'' @ encodeURIComponent P (RESOURCE_ID P) @ ''?'' @
              URLSearchParams_toString P
                ([(''api-key'', the (env P ''DATAGOVIN_API_KEY'')), (''format'', ''json''),
                  (''limit'', l), (''offset'', off)]
                 @ (if truthy (prop_of params ''state'') then [(''filters[State]'', sS)] else [])
                 @ (if truthy (prop_of params ''district'') then [(''filters[District]'', sD)] else [])
                 @ (if truthy (prop_of params ''commodity'') then [(''filters[Commodity]'', sC)] else [])),
       fheaders = [], fbody = None \<rparr>]"
proof -
  note la = cropPrice_locals_ok [OF assms(2)]
  have "cropPrice_urlParams P (the (env P ''DATAGOVIN_API_KEY''))
      \<lparr> p_state = prop_of params ''state'',
        p_district = prop_of params ''district'',
        p_commodity = prop_of params ''commodity'',
        p_limit = js_coalesce (prop_of params ''limit'') (JNum 50),
        p_offset = js_coalesce (prop_of params ''offset'') (JNum 0) \<rparr> =
     Inr ([(''api-key'', the (env P ''DATAGOVIN_API_KEY'')), (''format'', ''json''),
           (''limit'', l), (''offset'', off)]
          @ (if truthy (prop_of params ''state'') then [(''filters[State]'', sS)] else [])
          @ (if truthy (prop_of params ''district'') then [(''filters[District]'', sD)] else [])
          @ (if truthy (prop_of params ''commodity'') then [(''filters[Commodity]'', sC)] else []))"
    using cropPrice_urlParams_Inr [where P = P and l = l and off = off and sS = sS and sD = sD
        and sC = sC and k = "the (env P ''DATAGOVIN_API_KEY'')"
        and a = "\<lparr> p_state = prop_of params ''state'',
        p_district = prop_of params ''district'',
        p_commodity = prop_of params ''commodity'',
        p_limit = js_coalesce (prop_of params ''limit'') (JNum 50),
        p_offset = js_coalesce (prop_of params ''offset'') (JNum 0) \<rparr>"] assms(3-7)
    by simp
  then have "cropPrice_request P (the (env P ''DATAGOVIN_API_KEY'')) (RESOURCE_ID P)
      \<lparr> p_state = prop_of params ''state'',
        p_district = prop_of params ''district'',
        p_commodity = prop_of params ''commodity'',
        p_limit = js_coalesce (prop_of params ''limit'') (JNum 50),
        p_offset = js_coalesce (prop_of params ''offset'') (JNum 0) \<rparr> =
     Inr \<lparr> fmethod = ''GET'',
       furl = ''https://api.data.gov.in/resource/'' @ encodeURIComponent P (RESOURCE_ID P) @ ''?'' @
              URLSearchParams_toString P
                ([(''api-key'', the (env P ''DATAGOVIN_API_KEY'')), (''format'', ''json''),
                  (''limit'', l), (''offset'', off)]
                 @ (if truthy (prop_of params ''state'') then [(''filters[State]'', sS)] else [])
                 @ (if truthy (prop_of params ''district'') then [(''filters[District]'', sD)] else [])
                 @ (if truthy (prop_of params ''commodity'') then [(''filters[Commodity]'', sC)] else [])),
       fheaders = [], fbody = None \<rparr>"
    by (simp add: cropPrice_request_Inr)
  from cropPriceHandler_calls [OF assms(1) la this] show ?thesis .
qed

lemma cropPriceHandler_silent:
  assumes "snd (cropPriceHandler P params) = []"
  shows "\<exists>m. fst (cropPriceHandler P params) = error_result m"
  using assms
  by (auto simp: cropPriceHandler_def Let_def server_error_def error_result_eq
        split: if_splits sum.splits)

lemma cropPriceHandler_request_shape:
  assumes "snd (cropPriceHandler P params) \<noteq> []"
  shows "\<exists>l off sS sD sC.
      \<not> env_missing (env P ''DATAGOVIN_API_KEY'') \<and> \<not> nullish params
    \<and> js_String P (js_coalesce (prop_of params ''limit'') (JNum 50)) = Inr l
    \<and> js_String P (js_coalesce (prop_of params ''offset'') (JNum 0)) = Inr off
    \<and> (truthy (prop_of params ''state'') \<longrightarrow> js_String P (prop_of params ''state'') = Inr sS)
    \<and> (truthy (prop_of params ''district'') \<longrightarrow> js_String P (prop_of params ''district'') = Inr sD)
    \<and> (truthy (prop_of params ''commodity'') \<longrightarrow>
          js_String P (prop_of params ''commodity'') = Inr sC)
    \<and> snd (cropPriceHandler P params) =
        [\<lparr> fmethod = ''GET'',
           furl = ''https://api.data.gov.in/resource/'' @ encodeURIComponent P (RESOURCE_ID P) @
                  ''?'' @
                  URLSearchParams_toString P
                    ([(''api-key'', the (env P ''DATAGOVIN_API_KEY'')), (''format'', ''json''),
                      (''limit'', l), (''offset'', off)]
                     @ (if truthy (prop_of params ''state'') then [(''filters[State]'', sS)] else [])
                     @ (if truthy (prop_of params ''district'')
                        then [(''filters[District]'', sD)] else [])
                     @ (if truthy (prop_of params ''commodity'')
                        then [(''filters[Commodity]'', sC)] else [])),
           fheaders = [], fbody = None \<rparr>]"
proof -
  define A where "A = \<lparr> p_state = prop_of params ''state'',
        p_district = prop_of params ''district'',
        p_commodity = prop_of params ''commodity'',
        p_limit = js_coalesce (prop_of params ''limit'') (JNum 50),
        p_offset = js_coalesce (prop_of params ''offset'') (JNum 0) \<rparr>"
  from assms have key: "\<not> env_missing (env P ''DATAGOVIN_API_KEY'')"
    by (auto simp: cropPriceHandler_unconfigured)
  have nn: "\<not> nullish params"
  proof
    assume "nullish params"
    from cropPrice_locals_nullish [OF this] obtain err where "cropPrice_locals params = Inl err" ..
    with key assms show False by (simp add: cropPriceHandler_no_request)
  qed
  have la: "cropPrice_locals params = Inr A"
    unfolding A_def by (rule cropPrice_locals_ok [OF nn])
  obtain ps where ps: "cropPrice_urlParams P (the (env P ''DATAGOVIN_API_KEY'')) A = Inr ps"
  proof (cases "cropPrice_urlParams P (the (env P ''DATAGOVIN_API_KEY'')) A")
    case (Inl err)
    then have "cropPrice_request P (the (env P ''DATAGOVIN_API_KEY'')) (RESOURCE_ID P) A = Inl err"
      by (simp add: cropPrice_request_def bind_exn_def)
    with key la have "cropPriceHandler P params = (server_error err, [])"
      by (intro cropPriceHandler_no_request) auto
    with assms show ?thesis by simp
  next
    case (Inr ps)
    then show ?thesis by (rule that)
  qed
  from cropPrice_urlParams_InrD [OF ps] obtain l off sS sD sC where
    "js_String P (p_limit A) = Inr l" and "js_String P (p_offset A) = Inr off"
    and "truthy (p_state A) \<longrightarrow> js_String P (p_state A) = Inr sS"
    and "truthy (p_district A) \<longrightarrow> js_String P (p_district A) = Inr sD"
    and "truthy (p_commodity A) \<longrightarrow> js_String P (p_commodity A) = Inr sC"
    by (elim exE conjE) (rule that; assumption)
  then have c:
    "js_String P (js_coalesce (prop_of params ''limit'') (JNum 50)) = Inr l"
    "js_String P (js_coalesce (prop_of params ''offset'') (JNum 0)) = Inr off"
    "truthy (prop_of params ''state'') \<longrightarrow> js_String P (prop_of params ''state'') = Inr sS"
    "truthy (prop_of params ''district'') \<longrightarrow> js_String P (prop_of params ''district'') = Inr sD"
    "truthy (prop_of params ''commodity'') \<longrightarrow> js_String P (prop_of params ''commodity'') = Inr sC"
    by (simp_all add: A_def)
  from c(3-5) have c':
    "truthy (prop_of params ''state'') \<Longrightarrow> js_String P (prop_of params ''state'') = Inr sS"
    "truthy (prop_of params ''district'') \<Longrightarrow> js_String P (prop_of params ''district'') = Inr sD"
    "truthy (prop_of params ''commodity'') \<Longrightarrow> js_String P (prop_of params ''commodity'') = Inr sC"
    by simp_all
  note r = cropPriceHandler_issues [OF key nn c(1) c(2) c'(1) c'(2) c'(3)]
  from key nn c r show ?thesis
    by (intro exI [of _ l] exI [of _ off] exI [of _ sS] exI [of _ sD] exI [of _ sC] conjI)
qed

lemma cropPriceHandler_echo:
  assumes "fst (cropPriceHandler P params) = success_result d"
  shows "prop_of d ''limit'' = js_coalesce (prop_of params ''limit'') (JNum 50)
       \<and> prop_of d ''offset'' = js_coalesce (prop_of params ''offset'') (JNum 0)"
proof -
  have ne: "snd (cropPriceHandler P params) \<noteq> []"
  proof
    assume "snd (cropPriceHandler P params) = []"
    from cropPriceHandler_silent [OF this] assms show False
      by (auto simp: error_result_def success_result_def)
  qed
  from cropPriceHandler_request_shape [OF ne]
  have key: "\<not> env_missing (env P ''DATAGOVIN_API_KEY'')" and nn: "\<not> nullish params"
    by auto
  note la = cropPrice_locals_ok [OF nn]
  from ne obtain req where req: "cropPrice_request P (the (env P ''DATAGOVIN_API_KEY''))
      (RESOURCE_ID P)
      \<lparr> p_state = prop_of params ''state'',
        p_district = prop_of params ''district'',
        p_commodity = prop_of params ''commodity'',
        p_limit = js_coalesce (prop_of params ''limit'') (JNum 50),
        p_offset = js_coalesce (prop_of params ''offset'') (JNum 0) \<rparr> = Inr req"
    using key la by (auto simp: cropPriceHandler_def Let_def split: sum.splits)
  from cropPriceHandler_result [OF key la req] assms server_error_not_success(2) [of d]
  obtain res where "cropPrice_finish P
        \<lparr> p_state = prop_of params ''state'',
          p_district = prop_of params ''district'',
          p_commodity = prop_of params ''commodity'',
          p_limit = js_coalesce (prop_of params ''limit'') (JNum 50),
          p_offset = js_coalesce (prop_of params ''offset'') (JNum 0) \<rparr> res
        = Inr (success_result d)"
    by auto
  from cropPrice_finish_echo [OF this] show ?thesis by simp
qed

subsection \<open>The sample platforms\<close>

lemma offline_key:
  "\<not> env_missing (env offline_platform ''DATAGOVIN_API_KEY'')"
  "the (env offline_platform ''DATAGOVIN_API_KEY'') = ''sample-key''"
  "RESOURCE_ID offline_platform = default_resource_id"
  by (simp_all add: offline_platform_def sample_platform_def sample_env_def env_missing_def
        RESOURCE_ID_def)

lemma one_total_key:
  "\<not> env_missing (env one_total_platform ''DATAGOVIN_API_KEY'')"
  "the (env one_total_platform ''DATAGOVIN_API_KEY'') = ''sample-key''"
  "RESOURCE_ID one_total_platform = default_resource_id"
  by (simp_all add: one_total_platform_def sample_platform_def sample_env_def env_missing_def
        RESOURCE_ID_def)

lemma zero_total_key:
  "\<not> env_missing (env zero_total_platform ''DATAGOVIN_API_KEY'')"
  "the (env zero_total_platform ''DATAGOVIN_API_KEY'') = ''sample-key''"
  "RESOURCE_ID zero_total_platform = default_resource_id"
  by (simp_all add: zero_total_platform_def sample_platform_def sample_env_def env_missing_def
        RESOURCE_ID_def)


subsection \<open>The search handler\<close>

lemma mapResult_obj:
  "mapResult P (JObj fs) =
     bind_exn (opt_substring ''result.text'' (prop_of (JObj fs) ''text'') 0 500) (\<lambda>sub.
     bind_exn (js_concat P sub
        (if js_gt (opt_length (prop_of (JObj fs) ''text'')) 500 then ''...'' else [])) (\<lambda>txt.
       Inr (JObj [(''title'', prop_of (JObj fs) ''title''),
                  (''url'', prop_of (JObj fs) ''url''),
                  (''text'', txt),
                  (''score'', prop_of (JObj fs) ''score''),
                  (''published_date'', prop_of (JObj fs) ''published_date'')])))"
  by (simp add: mapResult_def getprop_obj bind_exn_def split: sum.splits)

lemma mapResult_text_string:
  assumes "map_of fs ''text'' = Some (JStr s)"
  shows "mapResult P (JObj fs) =
           Inr (JObj [(''title'', prop_of (JObj fs) ''title''),
                      (''url'', prop_of (JObj fs) ''url''),
                      (''text'', JStr (take 500 s @ (if 500 < length s then ''...'' else []))),
                      (''score'', prop_of (JObj fs) ''score''),
                      (''published_date'', prop_of (JObj fs) ''published_date'')])"
proof -
  from assms have t: "prop_of (JObj fs) ''text'' = JStr s"
    by (simp add: prop_of_def)
  have "opt_substring ''result.text'' (JStr s) 0 500 = Inr (JStr (take 500 s))"
    by (simp add: opt_substring_def nullish_def js_substring_def)
  moreover have "js_gt (opt_length (JStr s)) 500 \<longleftrightarrow> 500 < length s"
    by (simp add: opt_length_def nullish_def prop_of_def js_gt_def)
  ultimately show ?thesis
    by (simp add: mapResult_obj t bind_exn_def js_concat_def)
qed

lemma mapResult_text_absent:
  assumes "map_of fs ''text'' = None \<or> map_of fs ''text'' = Some JNull"
  shows "mapResult P (JObj fs) =
           Inr (JObj [(''title'', prop_of (JObj fs) ''title''),
                      (''url'', prop_of (JObj fs) ''url''),
                      (''text'', JStr ''undefined''),
                      (''score'', prop_of (JObj fs) ''score''),
                      (''published_date'', prop_of (JObj fs) ''published_date'')])"
proof -
  from assms have t: "nullish (prop_of (JObj fs) ''text'')"
    by (auto simp: prop_of_def nullish_def)
  then have "js_gt (opt_length (prop_of (JObj fs) ''text'')) 500 = False"
    by (simp add: opt_length_def js_gt_def)
  with t show ?thesis
    by (simp add: mapResult_obj opt_substring_def bind_exn_def js_concat_def)
qed

lemma map_exn_nth:
  "map_exn f xs = Inr ys \<Longrightarrow>
   length ys = length xs \<and> (\<forall>i<length xs. f (xs ! i) = Inr (ys ! i))"
proof (induction xs arbitrary: ys)
  case Nil
  then show ?case by simp
next
  case (Cons x xs)
  from Cons.prems obtain y ys' where y: "f x = Inr y" and ys': "map_exn f xs = Inr ys'"
    and ys: "ys = y # ys'"
    by (auto simp: bind_exn_eq_Inr)
  from Cons.IH [OF ys'] y ys show ?case
    by (auto simp: nth_Cons split: nat.splits)
qed

lemma map_exn_total:
  "(\<forall>x\<in>set xs. \<exists>y. f x = Inr y) \<Longrightarrow> \<exists>ys. map_exn f xs = Inr ys"
  by (induction xs) (auto simp: bind_exn_def)

lemma search_finish_results:
  assumes "ok res" and "JSON_parse P (rtext res) = Inr (JObj body)"
    and "map_of body ''results'' = Some (JArr rs)"
  shows "search_finish P a res =
    (case map_exn (mapResult P) rs of
       Inl err \<Rightarrow> Inl err
     | Inr ys \<Rightarrow> Inr (success_result (JObj [(''results'', JArr ys),
                                          (''total_results'', JNum (int (length rs))),
                                          (''query'', s_query a)])))"
  using assms
  by (simp add: search_finish_def getprop_obj bind_exn_def js_or_def prop_of_def call_map_def
        getprop_def nullish_def split: sum.splits)

lemma searchHandler_fetched:
  assumes "\<not> env_missing (env P ''EXA_API_KEY'')" and "search_params params = Inr a"
    and "fetch P (search_request P (the (env P ''EXA_API_KEY'')) a) = Inr res"
  shows "fst (searchHandler P params) =
    (case search_finish P a res of Inl err \<Rightarrow> server_error err | Inr r \<Rightarrow> r)"
  using assms by (simp add: searchHandler_def Let_def split: sum.splits)

lemma searchHandler_results:
  assumes "\<not> env_missing (env P ''EXA_API_KEY'')" and "search_params params = Inr a"
    and "fetch P (search_request P (the (env P ''EXA_API_KEY'')) a) = Inr res"
    and "ok res" and "JSON_parse P (rtext res) = Inr (JObj body)"
    and "map_of body ''results'' = Some (JArr rs)"
  shows "fst (searchHandler P params) =
    (case map_exn (mapResult P) rs of
       Inl err \<Rightarrow> server_error err
     | Inr ys \<Rightarrow> success_result (JObj [(''results'', JArr ys),
                                      (''total_results'', JNum (int (length rs))),
                                      (''query'', s_query a)]))"
  by (simp add: searchHandler_fetched [OF assms(1,2,3)] search_finish_results [OF assms(4,5,6)]
        split: sum.splits)

lemma searchHandler_mapped:
  assumes "\<not> env_missing (env P ''EXA_API_KEY'')" and "search_params params = Inr a"
    and "fetch P (search_request P (the (env P ''EXA_API_KEY'')) a) = Inr res"
    and "ok res" and "JSON_parse P (rtext res) = Inr (JObj body)"
    and "map_of body ''results'' = Some (JArr rs)"
    and "fst (searchHandler P params) = success_result d"
  shows "\<exists>ys. d = JObj [(''results'', JArr ys),
                        (''total_results'', JNum (int (length rs))),
                        (''query'', s_query a)]
            \<and> length ys = length rs
            \<and> (\<forall>i<length rs. mapResult P (rs ! i) = Inr (ys ! i))"
proof (cases "map_exn (mapResult P) rs")
  case (Inl err)
  with searchHandler_results [OF assms(1-6)] assms(7) show ?thesis
    by (simp add: server_error_not_success)
next
  case (Inr ys)
  with searchHandler_results [OF assms(1-6)] assms(7)
  have "d = JObj [(''results'', JArr ys), (''total_results'', JNum (int (length rs))),
                  (''query'', s_query a)]"
    by (simp add: success_result_eq)
  with map_exn_nth [OF Inr] show ?thesis by blast
qed

lemma searchHandler_succeeds:
  assumes "\<not> env_missing (env P ''EXA_API_KEY'')" and "search_params params = Inr a"
    and "fetch P (search_request P (the (env P ''EXA_API_KEY'')) a) = Inr res"
    and "ok res" and "JSON_parse P (rtext res) = Inr (JObj body)"
    and "map_of body ''results'' = Some (JArr rs)"
    and "\<forall>e\<in>set rs. \<exists>efs. e = JObj efs
           \<and> (map_of efs ''text'' = None \<or> map_of efs ''text'' = Some JNull
                \<or> (\<exists>s. map_of efs ''text'' = Some (JStr s)))"
  shows "\<exists>d. fst (searchHandler P params) = success_result d"
proof -
  have "\<forall>e\<in>set rs. \<exists>y. mapResult P e = Inr y"
  proof
    fix e assume "e \<in> set rs"
    with assms(7) obtain efs where e: "e = JObj efs"
      and t: "map_of efs ''text'' = None \<or> map_of efs ''text'' = Some JNull
                \<or> (\<exists>s. map_of efs ''text'' = Some (JStr s))"
      by blast
    from t show "\<exists>y. mapResult P e = Inr y"
      unfolding e using mapResult_text_absent [of efs P] mapResult_text_string [of efs _ P]
      by (elim disjE exE) simp_all
  qed
  from map_exn_total [OF this] obtain ys where "map_exn (mapResult P) rs = Inr ys" ..
  with searchHandler_results [OF assms(1-6)] show ?thesis
    by (simp add: success_result_eq)
qed

subsection \<open>Routing\<close>

lemma tools_route:
  "httpServer P \<lparr> req_method = ''POST'', req_url = ''/tools/'' @ name, req_body = body \<rparr> =
   tools_endpoint P (''/tools/'' @ name) body"
  by (simp add: httpServer_def)

lemma mcp_route:
  "httpServer P \<lparr> req_method = ''POST'', req_url = ''/mcp'', req_body = body \<rparr> =
   mcp_endpoint P body"
  by (simp add: httpServer_def)

lemma split_from_no_sep: "\<not> sublist sep s \<Longrightarrow> split_from sep acc s = [acc @ s]"
proof (induction s arbitrary: acc)
  case Nil
  then show ?case by simp
next
  case (Cons c cs)
  then have "\<not> prefix sep (c # cs)" and "\<not> sublist sep cs"
    by (simp_all add: sublist_Cons_right)
  with Cons.IH [of "acc @ [c]"] show ?case by simp
qed

lemma js_split_tools:
  "\<not> sublist ''/tools/'' name \<Longrightarrow> js_split (''/tools/'' @ name) ''/tools/'' = [[], name]"
  by (simp add: js_split_def split_from_no_sep)

lemma toolName_of_url:
  "\<not> sublist ''/tools/'' name \<Longrightarrow>
   js_index (js_split (''/tools/'' @ name) ''/tools/'') 1 = JStr name"
  using js_split_tools [of name] by (simp add: js_index_def)

lemma toolHandlers_keys_list: "toolHandlers_keys = JArr [JStr ''crop-price'', JStr ''search'']"
  by (simp add: toolHandlers_keys_def toolHandlers_def)

lemma registered_name:
  "map_of toolHandlers name = Some handler \<Longrightarrow>
   name = ''crop-price'' \<and> handler = cropPriceHandler \<or> name = ''search'' \<and> handler = searchHandler"
  by (auto simp: toolHandlers_def split: if_splits)

lemma registered_toolName:
  assumes "map_of toolHandlers name = Some handler"
  shows "js_index (js_split (''/tools/'' @ name) ''/tools/'') 1 = JStr name"
  using registered_name [OF assms]
  by (auto simp: js_split_def js_index_def)

lemma handleMCPRequest_call:
  assumes "map_of fs ''method'' = Some (JStr ''tools/call'')"
  shows "handleMCPRequest_try P (JObj fs) =
    (case destructure ''name'' ''request.params'' (prop_of (JObj fs) ''params'') of
       Inl err \<Rightarrow> (Inl err, [])
     | Inr ps \<Rightarrow>
         (case toolHandlers_get (prop_of ps ''name'') of
            None \<Rightarrow>
              (bind_exn (js_String P (prop_of ps ''name'')) (\<lambda>shown.
                 Inr (rpc_error (prop_of (JObj fs) ''id'') (JObj
                   [(''code'', JNum (- 32601)),
                    (''message'', JStr (''Tool '' @ [CHR 0x27] @ shown @
                                        [CHR 0x27] @ '' not found'')),
                    (''data'', JObj [(''availableTools'', toolHandlers_keys)])]))), [])
          | Some handler \<Rightarrow>
              (if truthy (prop_of (fst (handler P (prop_of ps ''arguments''))) ''error'')
               then Inr (rpc_error (prop_of (JObj fs) ''id'') (JObj
                      [(''code'', JNum (- 32603)),
                       (''message'', prop_of (fst (handler P (prop_of ps ''arguments''))) ''error'')]))
               else Inr (rpc_result (prop_of (JObj fs) ''id'') (JObj
                      [(''content'', JArr
                         [JObj [(''type'', JStr ''text''),
                                (''text'', JStr (JSON_stringify P
                                   (prop_of (fst (handler P (prop_of ps ''arguments''))) ''data'')
                                   2))]])])),
               snd (handler P (prop_of ps ''arguments'')))))"
proof -
  from assms have m: "prop_of (JObj fs) ''method'' = JStr ''tools/call''"
    by (simp add: prop_of_def)
  show ?thesis
    by (simp add: handleMCPRequest_try_def getprop_obj m Let_def
          split: sum.splits option.splits prod.splits)
qed

lemma toolHandlers_get_registered:
  "map_of toolHandlers name = Some handler \<Longrightarrow> toolHandlers_get (JStr name) = Some handler"
  by (simp add: toolHandlers_get_def)

lemma toolHandlers_get_unknown:
  "name \<noteq> ''crop-price'' \<Longrightarrow> name \<noteq> ''search'' \<Longrightarrow> toolHandlers_get (JStr name) = None"
  by (simp add: toolHandlers_get_def toolHandlers_def)

lemma tools_endpoint_registered:
  assumes "map_of toolHandlers name = Some handler"
    and "JSON_parse P (if body = [] then ''{}'' else body) = Inr params"
  shows "tools_endpoint P (''/tools/'' @ name) body =
           (json_response P 200 (fst (handler P params)), snd (handler P params))"
  using assms(2) registered_toolName [OF assms(1)] toolHandlers_get_registered [OF assms(1)]
  by (simp add: tools_endpoint_def Let_def split: prod.splits)

lemma gateway_parse:
  "JSON_parse gateway_platform ''{bad'' = Inl (Exn ''SyntaxError'' ''Unexpected token'')"
  "JSON_parse gateway_platform ''{}'' = Inr (JObj [])"
  "JSON_parse gateway_platform punjab_wheat_text = Inr (JObj punjab_wheat_fields)"
  "JSON_parse gateway_platform call_unknown_text = Inr (JObj call_unknown)"
  "JSON_parse gateway_platform call_price_text = Inr (JObj call_price)"
  by code_simp+

subsection \<open>The shape of a handler's result\<close>

lemma cropPrice_finish_shape:
  "cropPrice_finish P a res = Inr r \<Longrightarrow>
   (\<exists>m. m \<noteq> [] \<and> r = error_result m) \<or> (\<exists>d. r = success_result d)"
  by (auto simp: cropPrice_finish_def bind_exn_eq_Inr Let_def split: if_splits sum.splits)

lemma search_finish_shape:
  "search_finish P a res = Inr r \<Longrightarrow>
   (\<exists>m. m \<noteq> [] \<and> r = error_result m) \<or> (\<exists>d. r = success_result d)"
  by (auto simp: search_finish_def bind_exn_eq_Inr Let_def split: if_splits sum.splits)

lemma cropPriceHandler_shape:
  "(\<exists>m. m \<noteq> [] \<and> fst (cropPriceHandler P params) = error_result m)
   \<or> (\<exists>d. fst (cropPriceHandler P params) = success_result d)"
proof (cases "env_missing (env P ''DATAGOVIN_API_KEY'')")
  case True
  then show ?thesis
    by (simp add: cropPriceHandler_def error_result_eq error_result_not_success)
next
  case False
  show ?thesis
  proof (cases "cropPrice_locals params")
    case (Inl e)
    with False show ?thesis
      by (simp add: cropPriceHandler_def server_error_def error_result_eq error_result_not_success)
  next
    case a: (Inr a)
    show ?thesis
    proof (cases "cropPrice_request P (the (env P ''DATAGOVIN_API_KEY'')) (RESOURCE_ID P) a")
      case (Inl e)
      with False a show ?thesis
        by (simp add: cropPriceHandler_def server_error_def error_result_eq
              error_result_not_success)
    next
      case (Inr req)
      from cropPriceHandler_result [OF False a Inr] show ?thesis
      proof (elim disjE exE conjE)
        fix err assume "fst (cropPriceHandler P params) = server_error err"
        then show ?thesis
          by (simp add: server_error_def error_result_eq error_result_not_success)
      next
        fix res assume "cropPrice_finish P a res = Inr (fst (cropPriceHandler P params))"
        from cropPrice_finish_shape [OF this] show ?thesis .
      qed
    qed
  qed
qed

lemma searchHandler_result:
  assumes "\<not> env_missing (env P ''EXA_API_KEY'')" and "search_params params = Inr a"
  shows "(\<exists>err. fst (searchHandler P params) = server_error err)
     \<or> (\<exists>res. fetch P (search_request P (the (env P ''EXA_API_KEY'')) a) = Inr res
             \<and> search_finish P a res = Inr (fst (searchHandler P params)))"
  using assms by (auto simp: searchHandler_def Let_def split: sum.splits)

lemma searchHandler_shape:
  "(\<exists>m. m \<noteq> [] \<and> fst (searchHandler P params) = error_result m)
   \<or> (\<exists>d. fst (searchHandler P params) = success_result d)"
proof (cases "env_missing (env P ''EXA_API_KEY'')")
  case True
  then show ?thesis
    by (simp add: searchHandler_def error_result_eq error_result_not_success)
next
  case False
  show ?thesis
  proof (cases "search_params params")
    case (Inl e)
    with False show ?thesis
      by (simp add: searchHandler_def server_error_def error_result_eq error_result_not_success)
  next
    case (Inr a)
    from searchHandler_result [OF False Inr] show ?thesis
    proof (elim disjE exE conjE)
      fix err assume "fst (searchHandler P params) = server_error err"
      then show ?thesis
        by (simp add: server_error_def error_result_eq error_result_not_success)
    next
      fix res assume "search_finish P a res = Inr (fst (searchHandler P params))"
      from search_finish_shape [OF this] show ?thesis .
    qed
  qed
qed

lemma handler_shape:
  assumes "map_of toolHandlers name = Some handler"
  shows "(\<exists>m. m \<noteq> [] \<and> fst (handler P params) = error_result m)
         \<or> (\<exists>d. fst (handler P params) = success_result d)"
  using registered_name [OF assms] cropPriceHandler_shape [of P params]
    searchHandler_shape [of P params]
  by (elim disjE conjE) simp_all

lemma mcp_endpoint_registered:
  assumes h: "map_of toolHandlers name = Some handler"
    and p: "JSON_parse P rpc_body = Inr (JObj fs)"
    and m: "map_of fs ''method'' = Some (JStr ''tools/call'')"
    and ps: "map_of fs ''params'' = Some (JObj ps)"
    and n: "map_of ps ''name'' = Some (JStr name)"
    and a: "map_of ps ''arguments'' = Some args"
  shows "mcp_endpoint P rpc_body =
    (json_response P 200
       (if truthy (prop_of (fst (handler P args)) ''error'')
        then rpc_error (prop_of (JObj fs) ''id'') (JObj
               [(''code'', JNum (- 32603)),
                (''message'', prop_of (fst (handler P args)) ''error'')])
        else rpc_result (prop_of (JObj fs) ''id'') (JObj
               [(''content'', JArr
                  [JObj [(''type'', JStr ''text''),
                         (''text'', JStr (JSON_stringify P
                            (prop_of (fst (handler P args)) ''data'') 2))]])])),
     snd (handler P args))"
proof -
  have "handleMCPRequest_try P (JObj fs) =
    (if truthy (prop_of (fst (handler P args)) ''error'')
     then Inr (rpc_error (prop_of (JObj fs) ''id'') (JObj
            [(''code'', JNum (- 32603)),
             (''message'', prop_of (fst (handler P args)) ''error'')]))
     else Inr (rpc_result (prop_of (JObj fs) ''id'') (JObj
            [(''content'', JArr
               [JObj [(''type'', JStr ''text''),
                      (''text'', JStr (JSON_stringify P
                         (prop_of (fst (handler P args)) ''data'') 2))]])])),
     snd (handler P args))"
    using ps n a toolHandlers_get_registered [OF h]
    by (simp add: handleMCPRequest_call [OF m] prop_of_def destructure_def nullish_def)
  then show ?thesis
    using p by (simp add: mcp_endpoint_def handleMCPRequest_def)
qed


section \<open>The two front-ends\<close>

text \<open>
  Claim C1. For every registered tool and every argument mapping, the REST call
  \<^verbatim>\<open>POST /tools/{name}\<close> with the arguments as its body and the RPC call \<^verbatim>\<open>tools/call\<close>
  with the same name and arguments run the same handler on the same arguments, once,
  and issue the same outbound requests. When the handler fails with a message, REST
  sends the object \<^verbatim>\<open>{error: message}\<close> and RPC sends the error -32603 with that
  message; when it succeeds with a payload, REST sends \<^verbatim>\<open>{success: true, data}\<close> and RPC
  sends one text block that holds the same payload, printed with indentation 2. Both
  answer with the status 200.
\<close>

theorem rest_rpc_equivalence:
  assumes "map_of toolHandlers name = Some handler"
    and "JSON_parse P (if rest_body = [] then ''{}'' else rest_body) = Inr (JObj args)"
    and "JSON_parse P rpc_body = Inr (JObj fs)"
    and "map_of fs ''method'' = Some (JStr ''tools/call'')"
    and "map_of fs ''params'' = Some (JObj ps)"
    and "map_of ps ''name'' = Some (JStr name)"
    and "map_of ps ''arguments'' = Some (JObj args)"
    and "rid = (case map_of fs ''id'' of None \<Rightarrow> JUndefined | Some i \<Rightarrow> i)"
  shows
    "(\<exists>m. m \<noteq> [] \<and> fst (handler P (JObj args)) = error_result m
        \<and> httpServer P \<lparr> req_method = ''POST'', req_url = ''/tools/'' @ name, req_body = rest_body \<rparr> =
            (json_response P 200 (JObj [(''error'', JStr m)]), snd (handler P (JObj args)))
        \<and> httpServer P \<lparr> req_method = ''POST'', req_url = ''/mcp'', req_body = rpc_body \<rparr> =
            (json_response P 200
               (JObj [(''jsonrpc'', JStr ''2.0''), (''id'', rid),
                      (''error'', JObj [(''code'', JNum (- 32603)), (''message'', JStr m)])]),
             snd (handler P (JObj args))))
     \<or> (\<exists>d. fst (handler P (JObj args)) = success_result d
        \<and> httpServer P \<lparr> req_method = ''POST'', req_url = ''/tools/'' @ name, req_body = rest_body \<rparr> =
            (json_response P 200 (JObj [(''success'', JBool True), (''data'', d)]),
             snd (handler P (JObj args)))
        \<and> httpServer P \<lparr> req_method = ''POST'', req_url = ''/mcp'', req_body = rpc_body \<rparr> =
            (json_response P 200
               (JObj [(''jsonrpc'', JStr ''2.0''), (''id'', rid),
                      (''result'', JObj [(''content'', JArr
                         [JObj [(''type'', JStr ''text''),
                                (''text'', JStr (JSON_stringify P d 2))]])])]),
             snd (handler P (JObj args))))"
proof -
  have rest: "httpServer P \<lparr> req_method = ''POST'', req_url = ''/tools/'' @ name, req_body = rest_body \<rparr> =
      (json_response P 200 (fst (handler P (JObj args))), snd (handler P (JObj args)))"
    unfolding tools_route
    using tools_endpoint_registered [OF assms(1) assms(2)] by simp
  note rpc = mcp_endpoint_registered [OF assms(1) assms(3) assms(4) assms(5) assms(6) assms(7)]
  have rid: "prop_of (JObj fs) ''id'' = rid"
    by (simp add: assms(8) prop_of_def)
  from handler_shape [OF assms(1), of P "JObj args"] show ?thesis
  proof (elim disjE exE conjE)
    fix m assume m: "m \<noteq> []" "fst (handler P (JObj args)) = error_result m"
    have "prop_of (error_result m) ''error'' = JStr m"
      by (simp add: error_result_def prop_of_def)
    with m rest rpc rid show ?thesis
      by (intro disjI1 exI [of _ m]) (simp add: mcp_route rpc_error_def error_result_def)
  next
    fix d assume d: "fst (handler P (JObj args)) = success_result d"
    have "prop_of (success_result d) ''error'' = JUndefined"
      "prop_of (success_result d) ''data'' = d"
      by (simp_all add: success_result_def prop_of_def)
    with d rest rpc rid show ?thesis
      by (intro disjI2 exI [of _ d]) (simp add: mcp_route rpc_result_def success_result_def)
  qed
qed

theorem rest_rpc_equivalence_witness:
  "map_of toolHandlers ''crop-price'' = Some cropPriceHandler
   \<and> JSON_parse gateway_platform punjab_wheat_text = Inr (JObj punjab_wheat_fields)
   \<and> JSON_parse gateway_platform call_price_text = Inr (JObj call_price)
   \<and> httpServer gateway_platform
        \<lparr> req_method = ''POST'', req_url = ''/tools/crop-price'', req_body = punjab_wheat_text \<rparr> =
       (json_response gateway_platform 200
          (JObj [(''success'', JBool True),
                 (''data'', JObj [(''records'', JArr [wheat_record]), (''total'', JNum 1),
                                  (''limit'', JNum 5), (''offset'', JNum 0),
                                  (''query'', JObj [(''state'', JStr ''Punjab''),
                                                    (''district'', JUndefined),
                                                    (''commodity'', JStr ''Wheat'')])])]),
        [\<lparr> fmethod = ''GET'',
           furl = ''https://api.data.gov.in/resource/35985678-0d79-46b4-9ed6-6f13308a1d24?api-key=sample-key&format=json&limit=5&offset=0&filters[State]=Punjab&filters[Commodity]=Wheat'',
           fheaders = [], fbody = None \<rparr>])
   \<and> httpServer gateway_platform
        \<lparr> req_method = ''POST'', req_url = ''/mcp'', req_body = call_price_text \<rparr> =
       (json_response gateway_platform 200
          (JObj [(''jsonrpc'', JStr ''2.0''), (''id'', JNum 9),
                 (''result'', JObj [(''content'', JArr
                    [JObj [(''type'', JStr ''text''),
                           (''text'', JStr (JSON_stringify gateway_platform
                              (JObj [(''records'', JArr [wheat_record]), (''total'', JNum 1),
                                     (''limit'', JNum 5), (''offset'', JNum 0),
                                     (''query'', JObj [(''state'', JStr ''Punjab''),
                                                       (''district'', JUndefined),
                                                       (''commodity'', JStr ''Wheat'')])]) 2))]])])]),
        [\<lparr> fmethod = ''GET'',
           furl = ''https://api.data.gov.in/resource/35985678-0d79-46b4-9ed6-6f13308a1d24?api-key=sample-key&format=json&limit=5&offset=0&filters[State]=Punjab&filters[Commodity]=Wheat'',
           fheaders = [], fbody = None \<rparr>])"
proof -
  have h: "map_of toolHandlers ''crop-price'' = Some cropPriceHandler"
    by (simp add: toolHandlers_def)
  have n: "punjab_wheat_text \<noteq> []"
    by (simp add: punjab_wheat_text_def)
  have c: "map_of call_price ''method'' = Some (JStr ''tools/call'')"
    "map_of call_price ''params'' =
       Some (JObj [(''name'', JStr ''crop-price''), (''arguments'', JObj punjab_wheat_fields)])"
    "map_of [(''name'', JStr ''crop-price''), (''arguments'', JObj punjab_wheat_fields)] ''name''
       = Some (JStr ''crop-price'')"
    "map_of [(''name'', JStr ''crop-price''), (''arguments'', JObj punjab_wheat_fields)] ''arguments''
       = Some (JObj punjab_wheat_fields)"
    "JNum 9 = (case map_of call_price ''id'' of None \<Rightarrow> JUndefined | Some i \<Rightarrow> i)"
    by (simp_all add: call_price_def)
  have p: "JSON_parse gateway_platform
      (if punjab_wheat_text = [] then ''{}'' else punjab_wheat_text) = Inr (JObj punjab_wheat_fields)"
    using n by (simp add: gateway_parse)
  have r: "cropPriceHandler gateway_platform (JObj punjab_wheat_fields) =
      (success_result (JObj [(''records'', JArr [wheat_record]), (''total'', JNum 1),
                             (''limit'', JNum 5), (''offset'', JNum 0),
                             (''query'', JObj [(''state'', JStr ''Punjab''),
                                               (''district'', JUndefined),
                                               (''commodity'', JStr ''Wheat'')])]),
       [\<lparr> fmethod = ''GET'',
           furl = ''https://api.data.gov.in/resource/35985678-0d79-46b4-9ed6-6f13308a1d24?api-key=sample-key&format=json&limit=5&offset=0&filters[State]=Punjab&filters[Commodity]=Wheat'',
           fheaders = [], fbody = None \<rparr>])"
    by code_simp
  have ne: "success_result d \<noteq> error_result m" for d m
    by (simp add: error_result_def success_result_def)
  from rest_rpc_equivalence [OF h p gateway_parse(5) c(1) c(2) c(3) c(4) c(5)]
  show ?thesis
    by (simp add: r ne success_result_eq h gateway_parse)
qed


section \<open>Filters of the price query\<close>

text \<open>
  Claim C2, as the spec states it, fails: a \<^verbatim>\<open>state\<close> that is present with the empty
  string as its value puts no \<^verbatim>\<open>filters[State]\<close> entry into the outbound query. The
  request below is the one the handler issues for the parameters \<^verbatim>\<open>{"state": ""}\<close>.
\<close>

theorem filter_presence_counterexample:
  "map_of empty_state_fields ''state'' = Some (JStr [])
   \<and> cropPrice_locals (JObj empty_state_fields) =
       Inr \<lparr> p_state = JStr [], p_district = JUndefined, p_commodity = JUndefined,
             p_limit = JNum 50, p_offset = JNum 0 \<rparr>
   \<and> cropPrice_urlParams offline_platform ''sample-key''
        \<lparr> p_state = JStr [], p_district = JUndefined, p_commodity = JUndefined,
          p_limit = JNum 50, p_offset = JNum 0 \<rparr> =
       Inr [(''api-key'', ''sample-key''), (''format'', ''json''), (''limit'', ''50''),
            (''offset'', ''0'')]
   \<and> cropPriceHandler offline_platform (JObj empty_state_fields) =
       (JObj [(''error'', JStr ''Server error: FetchError: network unreachable'')],
        [\<lparr> fmethod = ''GET'',
           furl = ''https://api.data.gov.in/resource/35985678-0d79-46b4-9ed6-6f13308a1d24?api-key=sample-key&format=json&limit=50&offset=0'',
           fheaders = [], fbody = None \<rparr>])"
  by code_simp

text \<open>
  Claim C2, amended. For every parameter mapping, the outbound request of the price
  handler, when it issues one, is a GET of the resource URL with the query
  \<^verbatim>\<open>api-key\<close>, \<^verbatim>\<open>format\<close>, \<^verbatim>\<open>limit\<close>, \<^verbatim>\<open>offset\<close> followed by a \<^verbatim>\<open>filters[State]\<close> entry if
  and only if \<^verbatim>\<open>state\<close> is present with a truthy value (not \<^verbatim>\<open>null\<close>, \<^verbatim>\<open>false\<close>, 0 or
  the empty string), whose value is then the string of the input; the same holds of
  \<^verbatim>\<open>district\<close> and \<^verbatim>\<open>commodity\<close>, in this order. The handler issues that request, and
  no other, whenever the API key is configured and \<^verbatim>\<open>limit\<close>, \<^verbatim>\<open>offset\<close> and the truthy
  filters convert to strings, as every string, number and boolean does; otherwise it
  issues none and returns an error.
\<close>

theorem cropPrice_filters:
  assumes "st = (case map_of fs ''state'' of None \<Rightarrow> JUndefined | Some v \<Rightarrow> v)"
    and "di = (case map_of fs ''district'' of None \<Rightarrow> JUndefined | Some v \<Rightarrow> v)"
    and "co = (case map_of fs ''commodity'' of None \<Rightarrow> JUndefined | Some v \<Rightarrow> v)"
    and "lim = (case map_of fs ''limit'' of
                  None \<Rightarrow> JNum 50 | Some v \<Rightarrow> if nullish v then JNum 50 else v)"
    and "offv = (case map_of fs ''offset'' of
                   None \<Rightarrow> JNum 0 | Some v \<Rightarrow> if nullish v then JNum 0 else v)"
  shows
    "(snd (cropPriceHandler P (JObj fs)) = []
        \<and> (\<exists>m. fst (cropPriceHandler P (JObj fs)) = error_result m)
      \<or> (\<exists>l off sS sD sC.
            js_String P lim = Inr l \<and> js_String P offv = Inr off
          \<and> (truthy st \<longrightarrow> js_String P st = Inr sS)
          \<and> (truthy di \<longrightarrow> js_String P di = Inr sD)
          \<and> (truthy co \<longrightarrow> js_String P co = Inr sC)
          \<and> snd (cropPriceHandler P (JObj fs)) =
              [\<lparr> fmethod = ''GET'',
                 furl = ''https://api.data.gov.in/resource/'' @
                        encodeURIComponent P (RESOURCE_ID P) @ ''?'' @
                        URLSearchParams_toString P
                          ([(''api-key'', the (env P ''DATAGOVIN_API_KEY'')), (''format'', ''json''),
                            (''limit'', l), (''offset'', off)]
                           @ (if truthy st then [(''filters[State]'', sS)] else [])
                           @ (if truthy di then [(''filters[District]'', sD)] else [])
                           @ (if truthy co then [(''filters[Commodity]'', sC)] else [])),
                 fheaders = [], fbody = None \<rparr>]))
     \<and> (truthy st \<longleftrightarrow> (\<exists>v. map_of fs ''state'' = Some v \<and> truthy v))
     \<and> (truthy di \<longleftrightarrow> (\<exists>v. map_of fs ''district'' = Some v \<and> truthy v))
     \<and> (truthy co \<longleftrightarrow> (\<exists>v. map_of fs ''commodity'' = Some v \<and> truthy v))
     \<and> (\<not> env_missing (env P ''DATAGOVIN_API_KEY'')
          \<and> (\<exists>l. js_String P lim = Inr l) \<and> (\<exists>off. js_String P offv = Inr off)
          \<and> (truthy st \<longrightarrow> (\<exists>s. js_String P st = Inr s))
          \<and> (truthy di \<longrightarrow> (\<exists>s. js_String P di = Inr s))
          \<and> (truthy co \<longrightarrow> (\<exists>s. js_String P co = Inr s))
        \<longrightarrow> snd (cropPriceHandler P (JObj fs)) \<noteq> [])"
proof -
  have st: "prop_of (JObj fs) ''state'' = st" and di: "prop_of (JObj fs) ''district'' = di"
    and co: "prop_of (JObj fs) ''commodity'' = co"
    by (simp_all add: assms prop_of_def)
  have lim: "js_coalesce (prop_of (JObj fs) ''limit'') (JNum 50) = lim"
    and offv: "js_coalesce (prop_of (JObj fs) ''offset'') (JNum 0) = offv"
    by (simp_all add: assms prop_of_def js_coalesce_def nullish_def split: option.splits)
  have nn: "\<not> nullish (JObj fs)"
    by (simp add: nullish_def)
  have shape: "snd (cropPriceHandler P (JObj fs)) = []
        \<and> (\<exists>m. fst (cropPriceHandler P (JObj fs)) = error_result m)
      \<or> (\<exists>l off sS sD sC.
            js_String P lim = Inr l \<and> js_String P offv = Inr off
          \<and> (truthy st \<longrightarrow> js_String P st = Inr sS)
          \<and> (truthy di \<longrightarrow> js_String P di = Inr sD)
          \<and> (truthy co \<longrightarrow> js_String P co = Inr sC)
          \<and> snd (cropPriceHandler P (JObj fs)) =
              [\<lparr> fmethod = ''GET'',
                 furl = ''https://api.data.gov.in/resource/'' @
                        encodeURIComponent P (RESOURCE_ID P) @ ''?'' @
                        URLSearchParams_toString P
                          ([(''api-key'', the (env P ''DATAGOVIN_API_KEY'')), (''format'', ''json''),
                            (''limit'', l), (''offset'', off)]
                           @ (if truthy st then [(''filters[State]'', sS)] else [])
                           @ (if truthy di then [(''filters[District]'', sD)] else [])
                           @ (if truthy co then [(''filters[Commodity]'', sC)] else [])),
                 fheaders = [], fbody = None \<rparr>])"
  proof (cases "snd (cropPriceHandler P (JObj fs)) = []")
    case True
    with cropPriceHandler_silent [OF True] show ?thesis by (intro disjI1 conjI)
  next
    case False
    from cropPriceHandler_request_shape [OF False] show ?thesis
      unfolding st di co lim offv
      by (intro disjI2) (elim exE conjE, intro exI conjI; assumption)
  qed
  have present: "truthy st \<longleftrightarrow> (\<exists>v. map_of fs ''state'' = Some v \<and> truthy v)"
    "truthy di \<longleftrightarrow> (\<exists>v. map_of fs ''district'' = Some v \<and> truthy v)"
    "truthy co \<longleftrightarrow> (\<exists>v. map_of fs ''commodity'' = Some v \<and> truthy v)"
    by (simp_all add: assms split: option.splits)
  have issues: "snd (cropPriceHandler P (JObj fs)) \<noteq> []"
    if key: "\<not> env_missing (env P ''DATAGOVIN_API_KEY'')"
      and l: "\<exists>l. js_String P lim = Inr l" and off: "\<exists>off. js_String P offv = Inr off"
      and s: "truthy st \<longrightarrow> (\<exists>s. js_String P st = Inr s)"
      and d: "truthy di \<longrightarrow> (\<exists>s. js_String P di = Inr s)"
      and c: "truthy co \<longrightarrow> (\<exists>s. js_String P co = Inr s)"
  proof -
    from l obtain l' where l': "js_String P lim = Inr l'" ..
    from off obtain off' where off': "js_String P offv = Inr off'" ..
    define sS where "sS = (case js_String P st of Inr s \<Rightarrow> s | Inl e \<Rightarrow> [])"
    define sD where "sD = (case js_String P di of Inr s \<Rightarrow> s | Inl e \<Rightarrow> [])"
    define sC where "sC = (case js_String P co of Inr s \<Rightarrow> s | Inl e \<Rightarrow> [])"
    have s': "truthy st \<Longrightarrow> js_String P st = Inr sS" using s by (auto simp: sS_def)
    have d': "truthy di \<Longrightarrow> js_String P di = Inr sD" using d by (auto simp: sD_def)
    have c': "truthy co \<Longrightarrow> js_String P co = Inr sC" using c by (auto simp: sC_def)
    from cropPriceHandler_issues [OF key nn, unfolded st di co lim offv, OF l' off' s' d' c']
    show ?thesis by simp
  qed
  from shape present issues show ?thesis
    by (intro conjI impI) (assumption | (elim conjE, rule issues; assumption))+
qed

theorem cropPrice_filters_witness:
  "JStr ''Punjab'' = (case map_of punjab_wheat_fields ''state'' of None \<Rightarrow> JUndefined | Some v \<Rightarrow> v)
   \<and> JUndefined = (case map_of punjab_wheat_fields ''district'' of None \<Rightarrow> JUndefined | Some v \<Rightarrow> v)
   \<and> JStr ''Wheat'' = (case map_of punjab_wheat_fields ''commodity'' of None \<Rightarrow> JUndefined | Some v \<Rightarrow> v)
   \<and> \<not> env_missing (env offline_platform ''DATAGOVIN_API_KEY'')
   \<and> js_String offline_platform (JNum 5) = Inr ''5''
   \<and> js_String offline_platform (JNum 0) = Inr ''0''
   \<and> js_String offline_platform (JStr ''Punjab'') = Inr ''Punjab''
   \<and> js_String offline_platform (JStr ''Wheat'') = Inr ''Wheat''
   \<and> snd (cropPriceHandler offline_platform (JObj punjab_wheat_fields)) =
       [\<lparr> fmethod = ''GET'',
          furl = ''https://api.data.gov.in/resource/'' @
                 encodeURIComponent offline_platform (RESOURCE_ID offline_platform) @ ''?'' @
                 URLSearchParams_toString offline_platform
                   [(''api-key'', ''sample-key''), (''format'', ''json''),
                    (''limit'', ''5''), (''offset'', ''0''),
                    (''filters[State]'', ''Punjab''), (''filters[Commodity]'', ''Wheat'')],
          fheaders = [], fbody = None \<rparr>]
   \<and> furl (hd (snd (cropPriceHandler offline_platform (JObj punjab_wheat_fields)))) =
       ''https://api.data.gov.in/resource/35985678-0d79-46b4-9ed6-6f13308a1d24?api-key=sample-key&format=json&limit=5&offset=0&filters[State]=Punjab&filters[Commodity]=Wheat''"
proof -
  have e: "JStr ''Punjab'' = (case map_of punjab_wheat_fields ''state'' of None \<Rightarrow> JUndefined | Some v \<Rightarrow> v)"
    "JUndefined = (case map_of punjab_wheat_fields ''district'' of None \<Rightarrow> JUndefined | Some v \<Rightarrow> v)"
    "JStr ''Wheat'' = (case map_of punjab_wheat_fields ''commodity'' of None \<Rightarrow> JUndefined | Some v \<Rightarrow> v)"
    "JNum 5 = (case map_of punjab_wheat_fields ''limit'' of
                  None \<Rightarrow> JNum 50 | Some v \<Rightarrow> if nullish v then JNum 50 else v)"
    "JNum 0 = (case map_of punjab_wheat_fields ''offset'' of
                   None \<Rightarrow> JNum 0 | Some v \<Rightarrow> if nullish v then JNum 0 else v)"
    by (simp_all add: punjab_wheat_fields_def nullish_def)
  note T = cropPrice_filters [OF e, of offline_platform]
  have ne: "snd (cropPriceHandler offline_platform (JObj punjab_wheat_fields)) \<noteq> []"
    using T [THEN conjunct2, THEN conjunct2, THEN conjunct2, THEN conjunct2]
    by (simp add: offline_key Number_String_defaults)
  with T [THEN conjunct1]
  have log: "snd (cropPriceHandler offline_platform (JObj punjab_wheat_fields)) =
       [\<lparr> fmethod = ''GET'',
          furl = ''https://api.data.gov.in/resource/'' @
                 encodeURIComponent offline_platform (RESOURCE_ID offline_platform) @ ''?'' @
                 URLSearchParams_toString offline_platform
                   [(''api-key'', ''sample-key''), (''format'', ''json''),
                    (''limit'', ''5''), (''offset'', ''0''),
                    (''filters[State]'', ''Punjab''), (''filters[Commodity]'', ''Wheat'')],
          fheaders = [], fbody = None \<rparr>]"
    by (auto simp: Number_String_defaults offline_key)
  have url: "''https://api.data.gov.in/resource/'' @
                 encodeURIComponent offline_platform (RESOURCE_ID offline_platform) @ ''?'' @
                 URLSearchParams_toString offline_platform
                   [(''api-key'', ''sample-key''), (''format'', ''json''),
                    (''limit'', ''5''), (''offset'', ''0''),
                    (''filters[State]'', ''Punjab''), (''filters[Commodity]'', ''Wheat'')] =
       ''https://api.data.gov.in/resource/35985678-0d79-46b4-9ed6-6f13308a1d24?api-key=sample-key&format=json&limit=5&offset=0&filters[State]=Punjab&filters[Commodity]=Wheat''"
    by code_simp
  have j: "js_String offline_platform (JNum 5) = Inr ''5''"
    "js_String offline_platform (JNum 0) = Inr ''0''"
    "js_String offline_platform (JStr ''Punjab'') = Inr ''Punjab''"
    "js_String offline_platform (JStr ''Wheat'') = Inr ''Wheat''"
    by (simp_all add: Number_String_defaults)
  have u: "furl (hd (snd (cropPriceHandler offline_platform (JObj punjab_wheat_fields)))) =
       ''https://api.data.gov.in/resource/35985678-0d79-46b4-9ed6-6f13308a1d24?api-key=sample-key&format=json&limit=5&offset=0&filters[State]=Punjab&filters[Commodity]=Wheat''"
    using log url by simp
  show ?thesis
    by (intro conjI e(1) e(2) e(3) offline_key(1) j log u)
qed

section \<open>Records and total of the price result\<close>

text \<open>
  Claim C3, as the spec states it, fails: the upstream body below has one record and the
  total 0, and the handler returns the total 1, the count of the records.
\<close>

theorem upstream_total_zero_counterexample:
  "map_of zero_total_fields ''total'' = Some (JNum 0)
   \<and> fetch zero_total_platform
        \<lparr> fmethod = ''GET'',
          furl = ''https://api.data.gov.in/resource/35985678-0d79-46b4-9ed6-6f13308a1d24?api-key=sample-key&format=json&limit=50&offset=0'',
          fheaders = [], fbody = None \<rparr>
       = Inr \<lparr> rstatus = 200, rtext = zero_total_text \<rparr>
   \<and> JSON_parse zero_total_platform zero_total_text = Inr (JObj zero_total_fields)
   \<and> cropPriceHandler zero_total_platform (JObj []) =
       (JObj [(''success'', JBool True),
              (''data'', JObj [(''records'', JArr [wheat_record]),
                               (''total'', JNum 1),
                               (''limit'', JNum 50),
                               (''offset'', JNum 0),
                               (''query'', JObj [(''state'', JUndefined),
                                                 (''district'', JUndefined),
                                                 (''commodity'', JUndefined)])])],
        [\<lparr> fmethod = ''GET'',
          furl = ''https://api.data.gov.in/resource/35985678-0d79-46b4-9ed6-6f13308a1d24?api-key=sample-key&format=json&limit=50&offset=0'',
          fheaders = [], fbody = None \<rparr>])"
  by code_simp

text \<open>
  Claim C3, amended. When the upstream answers with a success status and a body that
  parses to an object, the price handler returns a success. Its \<^verbatim>\<open>records\<close> is the
  upstream \<^verbatim>\<open>records\<close> when that is present and truthy, and the empty sequence
  otherwise. Its \<^verbatim>\<open>total\<close> is the upstream \<^verbatim>\<open>total\<close> when that is present and truthy (so
  not 0, \<^verbatim>\<open>null\<close>, \<^verbatim>\<open>false\<close> or the empty string), and the \<^verbatim>\<open>length\<close> of \<^verbatim>\<open>records\<close>
  otherwise, which is the count of the records when \<^verbatim>\<open>records\<close> is a sequence.
\<close>

theorem cropPrice_records_total:
  assumes "\<not> env_missing (env P ''DATAGOVIN_API_KEY'')"
    and "cropPrice_locals params = Inr a"
    and "cropPrice_request P (the (env P ''DATAGOVIN_API_KEY'')) (RESOURCE_ID P) a = Inr req"
    and "fetch P req = Inr res"
    and "ok res"
    and "JSON_parse P (rtext res) = Inr (JObj fs)"
    and "records = (case map_of fs ''records'' of
                      None \<Rightarrow> JArr [] | Some r \<Rightarrow> if truthy r then r else JArr [])"
  shows "fst (cropPriceHandler P params) =
           success_result (JObj
             [(''records'', records),
              (''total'', (case map_of fs ''total'' of
                             None \<Rightarrow> prop_of records ''length''
                           | Some t \<Rightarrow> if truthy t then t else prop_of records ''length'')),
              (''limit'', p_limit a),
              (''offset'', p_offset a),
              (''query'', JObj [(''state'', p_state a),
                                (''district'', p_district a),
                                (''commodity'', p_commodity a)])])
         \<and> (\<forall>rs. records = JArr rs \<longrightarrow> prop_of records ''length'' = JNum (int (length rs)))"
proof -
  have recs: "js_or (prop_of (JObj fs) ''records'') (JArr []) = records"
    using assms(7) by (simp add: js_or_def prop_of_def split: option.splits)
  have nn: "\<not> nullish records"
    using assms(7) by (auto simp: nullish_def split: option.splits if_splits)
  have tot: "js_or (prop_of (JObj fs) ''total'') (prop_of records ''length'') =
      (case map_of fs ''total'' of
         None \<Rightarrow> prop_of records ''length''
       | Some t \<Rightarrow> if truthy t then t else prop_of records ''length'')"
    by (simp add: js_or_def prop_of_def split: option.splits)
  have "cropPrice_finish P a res =
      Inr (success_result (JObj
             [(''records'', records),
              (''total'', (case map_of fs ''total'' of
                             None \<Rightarrow> prop_of records ''length''
                           | Some t \<Rightarrow> if truthy t then t else prop_of records ''length'')),
              (''limit'', p_limit a),
              (''offset'', p_offset a),
              (''query'', JObj [(''state'', p_state a),
                                (''district'', p_district a),
                                (''commodity'', p_commodity a)])]))"
    using assms(5,6) nn
    by (simp add: cropPrice_finish_def getprop_obj bind_exn_def Let_def recs getprop_def tot
          nullish_def)
  from cropPriceHandler_finish [OF assms(1,2,3,4) this]
  show ?thesis by (simp add: prop_of_def)
qed

theorem cropPrice_records_total_witness:
  "\<not> env_missing (env zero_total_platform ''DATAGOVIN_API_KEY'')
   \<and> cropPrice_locals (JObj []) =
       Inr \<lparr> p_state = JUndefined, p_district = JUndefined, p_commodity = JUndefined,
             p_limit = JNum 50, p_offset = JNum 0 \<rparr>
   \<and> ok \<lparr> rstatus = 200, rtext = zero_total_text \<rparr>
   \<and> fst (cropPriceHandler zero_total_platform (JObj [])) =
       success_result (JObj
         [(''records'', JArr [wheat_record]),
          (''total'', JNum 1),
          (''limit'', JNum 50),
          (''offset'', JNum 0),
          (''query'', JObj [(''state'', JUndefined), (''district'', JUndefined),
                            (''commodity'', JUndefined)])])"
proof -
  have l: "cropPrice_locals (JObj []) =
       Inr \<lparr> p_state = JUndefined, p_district = JUndefined, p_commodity = JUndefined,
             p_limit = JNum 50, p_offset = JNum 0 \<rparr>"
    by code_simp
  have q: "cropPrice_request zero_total_platform
           (the (env zero_total_platform ''DATAGOVIN_API_KEY'')) (RESOURCE_ID zero_total_platform)
           \<lparr> p_state = JUndefined, p_district = JUndefined, p_commodity = JUndefined,
             p_limit = JNum 50, p_offset = JNum 0 \<rparr>
       = Inr \<lparr> fmethod = ''GET'',
          furl = ''https://api.data.gov.in/resource/35985678-0d79-46b4-9ed6-6f13308a1d24?api-key=sample-key&format=json&limit=50&offset=0'',
          fheaders = [], fbody = None \<rparr>"
    by code_simp
  have f: "fetch zero_total_platform
        \<lparr> fmethod = ''GET'',
          furl = ''https://api.data.gov.in/resource/35985678-0d79-46b4-9ed6-6f13308a1d24?api-key=sample-key&format=json&limit=50&offset=0'',
          fheaders = [], fbody = None \<rparr>
       = Inr \<lparr> rstatus = 200, rtext = zero_total_text \<rparr>"
    by (simp add: zero_total_platform_def sample_platform_def upstream_ok_def)
  have k: "ok \<lparr> rstatus = 200, rtext = zero_total_text \<rparr>"
    by (simp add: ok_def)
  have p: "JSON_parse zero_total_platform (rtext \<lparr> rstatus = 200, rtext = zero_total_text \<rparr>)
      = Inr (JObj zero_total_fields)"
    by (simp add: zero_total_platform_def sample_platform_def sample_parse_def)
  have r: "JArr [wheat_record] =
      (case map_of zero_total_fields ''records'' of
         None \<Rightarrow> JArr [] | Some r \<Rightarrow> if truthy r then r else JArr [])"
    by (simp add: zero_total_fields_def)
  from cropPrice_records_total [OF zero_total_key(1) l q f k p r]
  show ?thesis
    using l k by (simp add: zero_total_key zero_total_fields_def prop_of_def)
qed


section \<open>Truncation of the search texts\<close>

text \<open>
  Claim C4. Let the search upstream answer with a success status and a body whose
  \<^verbatim>\<open>results\<close> is a sequence. Whenever the search handler returns a success, its
  \<^verbatim>\<open>results\<close> has one mapped entry for every upstream entry, in the same order, and
  for every upstream entry whose \<^verbatim>\<open>text\<close> is a string the mapped entry has as its
  \<^verbatim>\<open>text\<close> the first 500 characters of that string, followed by the marker \<^verbatim>\<open>...\<close> if
  and only if the string is longer than 500 characters: a text of at most 500
  characters, so one of exactly 500, is returned as it is. The handler returns a
  success when every upstream entry is an object whose \<^verbatim>\<open>text\<close> is a string, \<^verbatim>\<open>null\<close>
  or absent.
\<close>

theorem search_text_truncation:
  assumes "\<not> env_missing (env P ''EXA_API_KEY'')"
    and "search_params params = Inr a"
    and "fetch P (search_request P (the (env P ''EXA_API_KEY'')) a) = Inr res"
    and "ok res"
    and "JSON_parse P (rtext res) = Inr (JObj body)"
    and "map_of body ''results'' = Some (JArr rs)"
  shows
    "(\<forall>d. fst (searchHandler P params) = success_result d \<longrightarrow>
        (\<exists>ys. d = JObj [(''results'', JArr ys),
                        (''total_results'', JNum (int (length rs))),
                        (''query'', s_query a)]
           \<and> length ys = length rs
           \<and> (\<forall>i efs s. i < length rs \<and> rs ! i = JObj efs \<and> map_of efs ''text'' = Some (JStr s)
                \<longrightarrow> ys ! i =
                      JObj [(''title'', prop_of (rs ! i) ''title''),
                            (''url'', prop_of (rs ! i) ''url''),
                            (''text'', JStr (take 500 s @ (if 500 < length s then ''...'' else []))),
                            (''score'', prop_of (rs ! i) ''score''),
                            (''published_date'', prop_of (rs ! i) ''published_date'')]
                  \<and> (length s \<le> 500 \<longrightarrow> prop_of (ys ! i) ''text'' = JStr s)
                  \<and> (500 < length s \<longrightarrow> prop_of (ys ! i) ''text'' = JStr (take 500 s @ ''...'')))))
     \<and> ((\<forall>e\<in>set rs. \<exists>efs. e = JObj efs
             \<and> (map_of efs ''text'' = None \<or> map_of efs ''text'' = Some JNull
                  \<or> (\<exists>s. map_of efs ''text'' = Some (JStr s))))
          \<longrightarrow> (\<exists>d. fst (searchHandler P params) = success_result d))"
proof (intro conjI allI impI)
  fix d assume d: "fst (searchHandler P params) = success_result d"
  from searchHandler_mapped [OF assms d] obtain ys where
    shape: "d = JObj [(''results'', JArr ys),
                     (''total_results'', JNum (int (length rs))),
                     (''query'', s_query a)]"
    and len: "length ys = length rs"
    and nth: "\<forall>i<length rs. mapResult P (rs ! i) = Inr (ys ! i)"
    by blast
  have inner: "ys ! i =
          JObj [(''title'', prop_of (rs ! i) ''title''),
                (''url'', prop_of (rs ! i) ''url''),
                (''text'', JStr (take 500 s @ (if 500 < length s then ''...'' else []))),
                (''score'', prop_of (rs ! i) ''score''),
                (''published_date'', prop_of (rs ! i) ''published_date'')]
        \<and> (length s \<le> 500 \<longrightarrow> prop_of (ys ! i) ''text'' = JStr s)
        \<and> (500 < length s \<longrightarrow> prop_of (ys ! i) ''text'' = JStr (take 500 s @ ''...''))"
    if "i < length rs \<and> rs ! i = JObj efs \<and> map_of efs ''text'' = Some (JStr s)" for i efs s
  proof -
    from that have i: "i < length rs" and e: "rs ! i = JObj efs"
      and t: "map_of efs ''text'' = Some (JStr s)"
      by simp_all
    from nth i e mapResult_text_string [OF t, of P]
    have "ys ! i =
          JObj [(''title'', prop_of (rs ! i) ''title''),
                (''url'', prop_of (rs ! i) ''url''),
                (''text'', JStr (take 500 s @ (if 500 < length s then ''...'' else []))),
                (''score'', prop_of (rs ! i) ''score''),
                (''published_date'', prop_of (rs ! i) ''published_date'')]"
      by auto
    then show ?thesis by (simp add: prop_of_def)
  qed
  show "\<exists>ys. d = JObj [(''results'', JArr ys),
                        (''total_results'', JNum (int (length rs))),
                        (''query'', s_query a)]
           \<and> length ys = length rs
           \<and> (\<forall>i efs s. i < length rs \<and> rs ! i = JObj efs \<and> map_of efs ''text'' = Some (JStr s)
                \<longrightarrow> ys ! i =
                      JObj [(''title'', prop_of (rs ! i) ''title''),
                            (''url'', prop_of (rs ! i) ''url''),
                            (''text'', JStr (take 500 s @ (if 500 < length s then ''...'' else []))),
                            (''score'', prop_of (rs ! i) ''score''),
                            (''published_date'', prop_of (rs ! i) ''published_date'')]
                  \<and> (length s \<le> 500 \<longrightarrow> prop_of (ys ! i) ''text'' = JStr s)
                  \<and> (500 < length s \<longrightarrow> prop_of (ys ! i) ''text'' = JStr (take 500 s @ ''...'')))"
  proof (intro exI [of _ ys] conjI)
    show "d = JObj [(''results'', JArr ys),
                    (''total_results'', JNum (int (length rs))),
                    (''query'', s_query a)]"
      by (rule shape)
    show "length ys = length rs"
      by (rule len)
  qed (intro allI impI, rule inner, assumption)
next
  assume "\<forall>e\<in>set rs. \<exists>efs. e = JObj efs
             \<and> (map_of efs ''text'' = None \<or> map_of efs ''text'' = Some JNull
                  \<or> (\<exists>s. map_of efs ''text'' = Some (JStr s)))"
  from searchHandler_succeeds [OF assms this]
  show "\<exists>d. fst (searchHandler P params) = success_result d" .
qed

theorem search_text_truncation_witness:
  "\<not> env_missing (env search_platform ''EXA_API_KEY'')
   \<and> search_params wheat_query = Inr wheat_query_locals
   \<and> fetch search_platform
        (search_request search_platform (the (env search_platform ''EXA_API_KEY''))
           wheat_query_locals) = Inr \<lparr> rstatus = 200, rtext = search_reply_text \<rparr>
   \<and> ok \<lparr> rstatus = 200, rtext = search_reply_text \<rparr>
   \<and> JSON_parse search_platform search_reply_text = Inr (JObj search_reply_fields)
   \<and> map_of search_reply_fields ''results'' = Some (JArr search_reply_entries)
   \<and> fst (searchHandler search_platform wheat_query) =
       success_result (JObj
         [(''results'', JArr
            [JObj [(''title'', JStr ''Wheat prices''), (''url'', JStr ''https://example.org/a''),
                   (''text'', JStr ''Wheat prices rose.''),
                   (''score'', JNum 1), (''published_date'', JUndefined)],
             JObj [(''title'', JStr ''Rice''), (''url'', JUndefined),
                   (''text'', JStr (replicate 500 CHR ''a'')),
                   (''score'', JUndefined), (''published_date'', JUndefined)],
             JObj [(''title'', JStr ''Rice''), (''url'', JUndefined),
                   (''text'', JStr (replicate 500 CHR ''a'' @ ''...'')),
                   (''score'', JUndefined), (''published_date'', JUndefined)],
             JObj [(''title'', JStr ''Cotton''), (''url'', JStr ''https://example.org/c''),
                   (''text'', JStr ''undefined''),
                   (''score'', JUndefined), (''published_date'', JUndefined)]]),
          (''total_results'', JNum 4),
          (''query'', JStr ''wheat prices'')])"
proof -
  have k: "\<not> env_missing (env search_platform ''EXA_API_KEY'')"
    by (simp add: search_platform_def sample_platform_def sample_env_def env_missing_def)
  have a: "search_params wheat_query = Inr wheat_query_locals"
    by code_simp
  have f: "fetch search_platform
        (search_request search_platform (the (env search_platform ''EXA_API_KEY''))
           wheat_query_locals) = Inr \<lparr> rstatus = 200, rtext = search_reply_text \<rparr>"
    by (simp add: search_platform_def sample_platform_def upstream_ok_def)
  have o: "ok \<lparr> rstatus = 200, rtext = search_reply_text \<rparr>"
    by (simp add: ok_def)
  have p: "JSON_parse search_platform search_reply_text = Inr (JObj search_reply_fields)"
    by (simp add: search_platform_def sample_platform_def sample_parse_def)
  have p': "JSON_parse search_platform (rtext \<lparr> rstatus = 200, rtext = search_reply_text \<rparr>)
      = Inr (JObj search_reply_fields)"
    using p by simp
  have r: "map_of search_reply_fields ''results'' = Some (JArr search_reply_entries)"
    by (simp add: search_reply_fields_def)
  note T = search_text_truncation [OF k a f o p' r]
  have ok_entries: "\<forall>e\<in>set search_reply_entries. \<exists>efs. e = JObj efs
             \<and> (map_of efs ''text'' = None \<or> map_of efs ''text'' = Some JNull
                  \<or> (\<exists>s. map_of efs ''text'' = Some (JStr s)))"
    by (simp add: search_reply_entries_def short_entry_def entry_of_length_def textless_entry_def)
  from T [THEN conjunct2, THEN mp, OF ok_entries]
  obtain d where d: "fst (searchHandler search_platform wheat_query) = success_result d" ..
  from T [THEN conjunct1, rule_format, OF d] obtain ys where
    shape: "d = JObj [(''results'', JArr ys),
                     (''total_results'', JNum (int (length search_reply_entries))),
                     (''query'', s_query wheat_query_locals)]"
    and len: "length ys = length search_reply_entries"
    and nth: "\<forall>i efs s. i < length search_reply_entries \<and> search_reply_entries ! i = JObj efs
                \<and> map_of efs ''text'' = Some (JStr s)
                \<longrightarrow> ys ! i =
                      JObj [(''title'', prop_of (search_reply_entries ! i) ''title''),
                            (''url'', prop_of (search_reply_entries ! i) ''url''),
                            (''text'', JStr (take 500 s @ (if 500 < length s then ''...'' else []))),
                            (''score'', prop_of (search_reply_entries ! i) ''score''),
                            (''published_date'', prop_of (search_reply_entries ! i) ''published_date'')]
                  \<and> (length s \<le> 500 \<longrightarrow> prop_of (ys ! i) ''text'' = JStr s)
                  \<and> (500 < length s \<longrightarrow> prop_of (ys ! i) ''text'' = JStr (take 500 s @ ''...''))"
    by (elim exE conjE) (rule that; assumption)
  have e0: "search_reply_entries ! 0 = JObj short_entry
        \<and> map_of short_entry ''text'' = Some (JStr ''Wheat prices rose.'')"
    and e1: "search_reply_entries ! 1 = JObj (entry_of_length 500)
        \<and> map_of (entry_of_length 500) ''text'' = Some (JStr (replicate 500 CHR ''a''))"
    and e2: "search_reply_entries ! 2 = JObj (entry_of_length 501)
        \<and> map_of (entry_of_length 501) ''text'' = Some (JStr (replicate 501 CHR ''a''))"
    and n: "length search_reply_entries = 4"
    by (simp_all add: search_reply_entries_def short_entry_def entry_of_length_def)
  from nth [rule_format, of 0 short_entry "''Wheat prices rose.''"] e0 n
  have y0: "ys ! 0 = JObj [(''title'', JStr ''Wheat prices''), (''url'', JStr ''https://example.org/a''),
                   (''text'', JStr ''Wheat prices rose.''),
                   (''score'', JNum 1), (''published_date'', JUndefined)]"
    by (simp add: prop_of_def short_entry_def)
  from nth [rule_format, of 1 "entry_of_length 500" "replicate 500 CHR ''a''"] e1 n
  have y1: "ys ! 1 = JObj [(''title'', JStr ''Rice''), (''url'', JUndefined),
                   (''text'', JStr (replicate 500 CHR ''a'')),
                   (''score'', JUndefined), (''published_date'', JUndefined)]"
    by (simp add: prop_of_def entry_of_length_def)
  from nth [rule_format, of 2 "entry_of_length 501" "replicate 501 CHR ''a''"] e2 n
  have y2: "ys ! 2 = JObj [(''title'', JStr ''Rice''), (''url'', JUndefined),
                   (''text'', JStr (replicate 500 CHR ''a'' @ ''...'')),
                   (''score'', JUndefined), (''published_date'', JUndefined)]"
    by (simp add: prop_of_def entry_of_length_def)
  have res: "fst (searchHandler search_platform wheat_query) =
       success_result (JObj
         [(''results'', JArr
            [JObj [(''title'', JStr ''Wheat prices''), (''url'', JStr ''https://example.org/a''),
                   (''text'', JStr ''Wheat prices rose.''),
                   (''score'', JNum 1), (''published_date'', JUndefined)],
             JObj [(''title'', JStr ''Rice''), (''url'', JUndefined),
                   (''text'', JStr (replicate 500 CHR ''a'')),
                   (''score'', JUndefined), (''published_date'', JUndefined)],
             JObj [(''title'', JStr ''Rice''), (''url'', JUndefined),
                   (''text'', JStr (replicate 500 CHR ''a'' @ ''...'')),
                   (''score'', JUndefined), (''published_date'', JUndefined)],
             JObj [(''title'', JStr ''Cotton''), (''url'', JStr ''https://example.org/c''),
                   (''text'', JStr ''undefined''),
                   (''score'', JUndefined), (''published_date'', JUndefined)]]),
          (''total_results'', JNum 4),
          (''query'', JStr ''wheat prices'')])"
    by code_simp
  from d res have dD: "d = JObj
         [(''results'', JArr
            [JObj [(''title'', JStr ''Wheat prices''), (''url'', JStr ''https://example.org/a''),
                   (''text'', JStr ''Wheat prices rose.''),
                   (''score'', JNum 1), (''published_date'', JUndefined)],
             JObj [(''title'', JStr ''Rice''), (''url'', JUndefined),
                   (''text'', JStr (replicate 500 CHR ''a'')),
                   (''score'', JUndefined), (''published_date'', JUndefined)],
             JObj [(''title'', JStr ''Rice''), (''url'', JUndefined),
                   (''text'', JStr (replicate 500 CHR ''a'' @ ''...'')),
                   (''score'', JUndefined), (''published_date'', JUndefined)],
             JObj [(''title'', JStr ''Cotton''), (''url'', JStr ''https://example.org/c''),
                   (''text'', JStr ''undefined''),
                   (''score'', JUndefined), (''published_date'', JUndefined)]]),
          (''total_results'', JNum 4),
          (''query'', JStr ''wheat prices'')]"
    by (simp add: success_result_def)
  with shape have y3: "ys ! 3 = JObj [(''title'', JStr ''Cotton''), (''url'', JStr ''https://example.org/c''),
                   (''text'', JStr ''undefined''),
                   (''score'', JUndefined), (''published_date'', JUndefined)]"
    by auto
  from len n obtain y0' y1' y2' y3' where l4: "ys = [y0', y1', y2', y3']"
    by (cases ys; cases "tl ys"; cases "tl (tl ys)"; cases "tl (tl (tl ys))") auto
  from l4 y0 y1 y2 y3 have "JArr ys = JArr
            [JObj [(''title'', JStr ''Wheat prices''), (''url'', JStr ''https://example.org/a''),
                   (''text'', JStr ''Wheat prices rose.''),
                   (''score'', JNum 1), (''published_date'', JUndefined)],
             JObj [(''title'', JStr ''Rice''), (''url'', JUndefined),
                   (''text'', JStr (replicate 500 CHR ''a'')),
                   (''score'', JUndefined), (''published_date'', JUndefined)],
             JObj [(''title'', JStr ''Rice''), (''url'', JUndefined),
                   (''text'', JStr (replicate 500 CHR ''a'' @ ''...'')),
                   (''score'', JUndefined), (''published_date'', JUndefined)],
             JObj [(''title'', JStr ''Cotton''), (''url'', JStr ''https://example.org/c''),
                   (''text'', JStr ''undefined''),
                   (''score'', JUndefined), (''published_date'', JUndefined)]]"
    by simp
  with d shape n have out: "fst (searchHandler search_platform wheat_query) =
       success_result (JObj
         [(''results'', JArr
            [JObj [(''title'', JStr ''Wheat prices''), (''url'', JStr ''https://example.org/a''),
                   (''text'', JStr ''Wheat prices rose.''),
                   (''score'', JNum 1), (''published_date'', JUndefined)],
             JObj [(''title'', JStr ''Rice''), (''url'', JUndefined),
                   (''text'', JStr (replicate 500 CHR ''a'')),
                   (''score'', JUndefined), (''published_date'', JUndefined)],
             JObj [(''title'', JStr ''Rice''), (''url'', JUndefined),
                   (''text'', JStr (replicate 500 CHR ''a'' @ ''...'')),
                   (''score'', JUndefined), (''published_date'', JUndefined)],
             JObj [(''title'', JStr ''Cotton''), (''url'', JStr ''https://example.org/c''),
                   (''text'', JStr ''undefined''),
                   (''score'', JUndefined), (''published_date'', JUndefined)]]),
          (''total_results'', JNum 4),
          (''query'', JStr ''wheat prices'')])"
    by (simp add: wheat_query_locals_def)
  show ?thesis
    by (intro conjI k a f o p r out)
qed


section \<open>Missing credentials\<close>

text \<open>
  Claim C5. When the API key of a tool is not configured (the environment variable is
  unset, or empty), the handler of that tool returns the configuration error and has
  issued no outbound request, whatever its parameters: the price handler for
  \<^verbatim>\<open>DATAGOVIN_API_KEY\<close>, the search handler for \<^verbatim>\<open>EXA_API_KEY\<close>.
\<close>

theorem missing_key_no_fetch:
  "(env_missing (env P ''DATAGOVIN_API_KEY'') \<longrightarrow>
      cropPriceHandler P params =
        (error_result ''Configuration error: DATAGOVIN_API_KEY not set in environment.'', []))
   \<and> (env_missing (env P ''EXA_API_KEY'') \<longrightarrow>
      searchHandler P params =
        (error_result ''Configuration error: EXA_API_KEY not set in environment.'', []))"
  by (simp add: cropPriceHandler_def searchHandler_def)

theorem missing_key_no_fetch_witness:
  "env (sample_platform Map.empty [] no_network) ''DATAGOVIN_API_KEY'' = None
   \<and> env (sample_platform Map.empty [] no_network) ''EXA_API_KEY'' = None
   \<and> cropPriceHandler (sample_platform Map.empty [] no_network) (JObj punjab_wheat_fields) =
        (JObj [(''error'', JStr ''Configuration error: DATAGOVIN_API_KEY not set in environment.'')], [])
   \<and> searchHandler (sample_platform Map.empty [] no_network) (JObj [(''query'', JStr ''wheat'')]) =
        (JObj [(''error'', JStr ''Configuration error: EXA_API_KEY not set in environment.'')], [])"
  using missing_key_no_fetch [of "sample_platform Map.empty [] no_network" "JObj punjab_wheat_fields"]
    missing_key_no_fetch [of "sample_platform Map.empty [] no_network" "JObj [(''query'', JStr ''wheat'')]"]
  by (simp add: sample_platform_def env_missing_def error_result_def)


section \<open>Unknown tools\<close>

text \<open>
  Claim C6, as the spec states it, fails. The name \<^verbatim>\<open>crop-price/tools/x\<close> is not
  registered, and \<^verbatim>\<open>POST /tools/crop-price/tools/x\<close> is answered with the status 200
  by the price handler: the server takes as the tool name what stands between the
  first and the second \<^verbatim>\<open>/tools/\<close> of the path. The name \<^verbatim>\<open>weather\<close> is not registered
  either, and \<^verbatim>\<open>POST /tools/weather\<close> with a body that does not parse is answered with
  the status 400: the body is parsed before the name is looked up.
\<close>

theorem unknown_tool_counterexample:
  "map_of toolHandlers ''crop-price/tools/x'' = None
   \<and> JSON_parse gateway_platform ''{}'' = Inr (JObj [])
   \<and> httpServer gateway_platform
        \<lparr> req_method = ''POST'', req_url = ''/tools/crop-price/tools/x'', req_body = ''{}'' \<rparr> =
       (json_response gateway_platform 200
          (JObj [(''success'', JBool True),
                 (''data'', JObj [(''records'', JArr [wheat_record]), (''total'', JNum 1),
                                  (''limit'', JNum 50), (''offset'', JNum 0),
                                  (''query'', JObj [(''state'', JUndefined),
                                                    (''district'', JUndefined),
                                                    (''commodity'', JUndefined)])])]),
        [\<lparr> fmethod = ''GET'',
           furl = ''https://api.data.gov.in/resource/35985678-0d79-46b4-9ed6-6f13308a1d24?api-key=sample-key&format=json&limit=50&offset=0'',
           fheaders = [], fbody = None \<rparr>])
   \<and> res_status (fst (httpServer gateway_platform
        \<lparr> req_method = ''POST'', req_url = ''/tools/crop-price/tools/x'', req_body = ''{}'' \<rparr>))
       = 200
   \<and> map_of toolHandlers ''weather'' = None
   \<and> JSON_parse gateway_platform ''{bad'' = Inl (Exn ''SyntaxError'' ''Unexpected token'')
   \<and> httpServer gateway_platform
        \<lparr> req_method = ''POST'', req_url = ''/tools/weather'', req_body = ''{bad'' \<rparr> =
       (json_response gateway_platform 400
          (JObj [(''error'', JStr ''Invalid request: SyntaxError: Unexpected token'')]), [])"
  by code_simp

text \<open>
  Claim C6, amended. For every tool name that is not registered and does not contain
  \<^verbatim>\<open>/tools/\<close>: \<^verbatim>\<open>POST /tools/{name}\<close>, with a body that parses (or none), answers with
  the status 404 and a body whose \<^verbatim>\<open>available_tools\<close> is the list \<^verbatim>\<open>crop-price\<close>,
  \<^verbatim>\<open>search\<close>. For every tool name that is not registered, an RPC \<^verbatim>\<open>tools/call\<close> of that
  name answers with the error code -32601 and the same list in its \<^verbatim>\<open>data\<close>. Both are
  ordinary responses of the server, and no handler runs.
\<close>

theorem unknown_tool:
  "(JSON_parse P (if body = [] then ''{}'' else body) = Inr params
      \<and> name \<noteq> ''crop-price'' \<and> name \<noteq> ''search'' \<and> \<not> sublist ''/tools/'' name \<longrightarrow>
      httpServer P \<lparr> req_method = ''POST'', req_url = ''/tools/'' @ name, req_body = body \<rparr> =
        (json_response P 404
           (JObj [(''error'', JStr (''Tool '' @ [CHR 0x27] @ name @ [CHR 0x27] @ '' not found'')),
                  (''available_tools'', JArr [JStr ''crop-price'', JStr ''search''])]),
         []))
   \<and> (JSON_parse P rpc_body = Inr (JObj fs)
      \<and> map_of fs ''method'' = Some (JStr ''tools/call'')
      \<and> map_of fs ''params'' = Some (JObj ps)
      \<and> map_of ps ''name'' = Some (JStr name)
      \<and> name \<noteq> ''crop-price'' \<and> name \<noteq> ''search'' \<longrightarrow>
      httpServer P \<lparr> req_method = ''POST'', req_url = ''/mcp'', req_body = rpc_body \<rparr> =
        (json_response P 200
           (JObj [(''jsonrpc'', JStr ''2.0''),
                  (''id'', (case map_of fs ''id'' of None \<Rightarrow> JUndefined | Some i \<Rightarrow> i)),
                  (''error'', JObj
                     [(''code'', JNum (- 32601)),
                      (''message'', JStr (''Tool '' @ [CHR 0x27] @ name @ [CHR 0x27] @ '' not found'')),
                      (''data'', JObj [(''availableTools'',
                                        JArr [JStr ''crop-price'', JStr ''search''])])])]),
         []))"
proof -
  have rest: "tools_endpoint P (''/tools/'' @ name) body =
        (json_response P 404
           (JObj [(''error'', JStr (''Tool '' @ [CHR 0x27] @ name @ [CHR 0x27] @ '' not found'')),
                  (''available_tools'', JArr [JStr ''crop-price'', JStr ''search''])]),
         [])"
    if "JSON_parse P (if body = [] then ''{}'' else body) = Inr params"
      and "name \<noteq> ''crop-price''" and "name \<noteq> ''search''" and "\<not> sublist ''/tools/'' name"
    using that(1) toolName_of_url [OF that(4)] toolHandlers_get_unknown [OF that(2,3)]
    by (simp add: tools_endpoint_def Let_def toolHandlers_keys_list)
  have rpc: "mcp_endpoint P rpc_body =
        (json_response P 200
           (JObj [(''jsonrpc'', JStr ''2.0''),
                  (''id'', (case map_of fs ''id'' of None \<Rightarrow> JUndefined | Some i \<Rightarrow> i)),
                  (''error'', JObj
                     [(''code'', JNum (- 32601)),
                      (''message'', JStr (''Tool '' @ [CHR 0x27] @ name @ [CHR 0x27] @ '' not found'')),
                      (''data'', JObj [(''availableTools'',
                                        JArr [JStr ''crop-price'', JStr ''search''])])])]),
         [])"
    if p: "JSON_parse P rpc_body = Inr (JObj fs)"
      and m: "map_of fs ''method'' = Some (JStr ''tools/call'')"
      and ps: "map_of fs ''params'' = Some (JObj ps)"
      and n: "map_of ps ''name'' = Some (JStr name)"
      and u: "name \<noteq> ''crop-price''" "name \<noteq> ''search''"
  proof -
    have "handleMCPRequest_try P (JObj fs) =
        (Inr (rpc_error (prop_of (JObj fs) ''id'') (JObj
           [(''code'', JNum (- 32601)),
            (''message'', JStr (''Tool '' @ [CHR 0x27] @ name @ [CHR 0x27] @ '' not found'')),
            (''data'', JObj [(''availableTools'', toolHandlers_keys)])])), [])"
      using ps n toolHandlers_get_unknown [OF u]
      by (simp add: handleMCPRequest_call [OF m] prop_of_def destructure_def nullish_def
            bind_exn_Inr)
    then show ?thesis
      using p
      by (simp add: mcp_endpoint_def handleMCPRequest_def rpc_error_def prop_of_def
            toolHandlers_keys_list)
  qed
  show ?thesis
    unfolding tools_route mcp_route using rest rpc by blast
qed

theorem unknown_tool_witness:
  "JSON_parse gateway_platform ''{}'' = Inr (JObj [])
   \<and> \<not> sublist ''/tools/'' ''weather''
   \<and> httpServer gateway_platform
        \<lparr> req_method = ''POST'', req_url = ''/tools/weather'', req_body = ''{}'' \<rparr> =
       (json_response gateway_platform 404
          (JObj [(''error'', JStr (''Tool '' @ [CHR 0x27] @ ''weather'' @ [CHR 0x27] @ '' not found'')),
                 (''available_tools'', JArr [JStr ''crop-price'', JStr ''search''])]),
        [])
   \<and> JSON_parse gateway_platform call_unknown_text = Inr (JObj call_unknown)
   \<and> map_of call_unknown ''method'' = Some (JStr ''tools/call'')
   \<and> httpServer gateway_platform
        \<lparr> req_method = ''POST'', req_url = ''/mcp'', req_body = call_unknown_text \<rparr> =
       (json_response gateway_platform 200
          (JObj [(''jsonrpc'', JStr ''2.0''),
                 (''id'', JNum 8),
                 (''error'', JObj
                    [(''code'', JNum (- 32601)),
                     (''message'', JStr (''Tool '' @ [CHR 0x27] @ ''weather'' @ [CHR 0x27] @ '' not found'')),
                     (''data'', JObj [(''availableTools'',
                                       JArr [JStr ''crop-price'', JStr ''search''])])])]),
        [])"
proof -
  have s: "\<not> sublist ''/tools/'' ''weather''"
    by code_simp
  have c: "map_of call_unknown ''method'' = Some (JStr ''tools/call'')"
    "map_of call_unknown ''params'' = Some (JObj [(''name'', JStr ''weather''), (''arguments'', JObj [])])"
    "map_of call_unknown ''id'' = Some (JNum 8)"
    by (simp_all add: call_unknown_def)
  note T = unknown_tool [of gateway_platform "''{}''" "JObj []" "''weather''" call_unknown_text
      call_unknown "[(''name'', JStr ''weather''), (''arguments'', JObj [])]"]
  have r: "httpServer gateway_platform
        \<lparr> req_method = ''POST'', req_url = ''/tools/weather'', req_body = ''{}'' \<rparr> =
       (json_response gateway_platform 404
          (JObj [(''error'', JStr (''Tool '' @ [CHR 0x27] @ ''weather'' @ [CHR 0x27] @ '' not found'')),
                 (''available_tools'', JArr [JStr ''crop-price'', JStr ''search''])]),
        [])"
    using T [THEN conjunct1] s by (simp add: gateway_parse)
  have m: "httpServer gateway_platform
        \<lparr> req_method = ''POST'', req_url = ''/mcp'', req_body = call_unknown_text \<rparr> =
       (json_response gateway_platform 200
          (JObj [(''jsonrpc'', JStr ''2.0''),
                 (''id'', JNum 8),
                 (''error'', JObj
                    [(''code'', JNum (- 32601)),
                     (''message'', JStr (''Tool '' @ [CHR 0x27] @ ''weather'' @ [CHR 0x27] @ '' not found'')),
                     (''data'', JObj [(''availableTools'',
                                       JArr [JStr ''crop-price'', JStr ''search''])])])]),
        [])"
    using T [THEN conjunct2] by (simp add: gateway_parse c)
  from s r m show ?thesis
    by (simp add: gateway_parse c)
qed



section \<open>Malformed request bodies\<close>

text \<open>
  Claim C7. A body that the JSON parser rejects (and that is not empty) makes
  \<^verbatim>\<open>POST /tools/{name}\<close> answer with the status 400 and a body with an \<^verbatim>\<open>error\<close>
  string, for every name; it makes \<^verbatim>\<open>POST /mcp\<close> answer with the status 400 and an RPC
  envelope of error code -32700 and id 0. An empty body to \<^verbatim>\<open>/tools/{name}\<close> is
  handled as the body \<^verbatim>\<open>{}\<close>: for a registered tool the answer is the result of its
  handler on the empty mapping, with the status 200.
\<close>

theorem malformed_body:
  "(body \<noteq> [] \<and> JSON_parse P body = Inl err \<longrightarrow>
      httpServer P \<lparr> req_method = ''POST'', req_url = ''/tools/'' @ name, req_body = body \<rparr> =
        (json_response P 400 (JObj [(''error'', JStr (''Invalid request: '' @ String_exn err))]), []))
   \<and> (JSON_parse P body = Inl err \<longrightarrow>
      httpServer P \<lparr> req_method = ''POST'', req_url = ''/mcp'', req_body = body \<rparr> =
        (json_response P 400
           (JObj [(''jsonrpc'', JStr ''2.0''),
                  (''id'', JNum 0),
                  (''error'', JObj [(''code'', JNum (- 32700)),
                                    (''message'', JStr (''Parse error: '' @ String_exn err))])]),
         []))
   \<and> httpServer P \<lparr> req_method = ''POST'', req_url = ''/tools/'' @ name, req_body = [] \<rparr> =
       httpServer P \<lparr> req_method = ''POST'', req_url = ''/tools/'' @ name, req_body = ''{}'' \<rparr>
   \<and> (JSON_parse P ''{}'' = Inr (JObj []) \<and> map_of toolHandlers name = Some handler \<longrightarrow>
      httpServer P \<lparr> req_method = ''POST'', req_url = ''/tools/'' @ name, req_body = [] \<rparr> =
        (json_response P 200 (fst (handler P (JObj []))), snd (handler P (JObj []))))"
proof -
  have rest: "tools_endpoint P (''/tools/'' @ name) body =
      (json_response P 400 (JObj [(''error'', JStr (''Invalid request: '' @ String_exn err))]), [])"
    if "body \<noteq> []" and "JSON_parse P body =Inl err"
    using that by (simp add: tools_endpoint_def Let_def)
  have rpc: "mcp_endpoint P body =
      (json_response P 400
         (JObj [(''jsonrpc'', JStr ''2.0''),
                (''id'', JNum 0),
                (''error'', JObj [(''code'', JNum (- 32700)),
                                  (''message'', JStr (''Parse error: '' @ String_exn err))])]),
       [])"
    if "JSON_parse P body = Inl err"
    using that by (simp add: mcp_endpoint_def mcp_parse_error_def rpc_error_def)
  have empty: "tools_endpoint P (''/tools/'' @ name) [] = tools_endpoint P (''/tools/'' @ name) ''{}''"
    by (simp add: tools_endpoint_def)
  have reg: "tools_endpoint P (''/tools/'' @ name) [] =
      (json_response P 200 (fst (handler P (JObj []))), snd (handler P (JObj [])))"
    if "JSON_parse P ''{}'' = Inr (JObj [])" and "map_of toolHandlers name = Some handler"
    using tools_endpoint_registered [OF that(2), of P "[]" "JObj []"] that(1) by simp
  show ?thesis
    unfolding tools_route mcp_route using rest rpc empty reg by blast
qed

theorem malformed_body_witness:
  "JSON_parse gateway_platform ''{bad'' = Inl (Exn ''SyntaxError'' ''Unexpected token'')
   \<and> httpServer gateway_platform
        \<lparr> req_method = ''POST'', req_url = ''/tools/crop-price'', req_body = ''{bad'' \<rparr> =
       (json_response gateway_platform 400
          (JObj [(''error'', JStr ''Invalid request: SyntaxError: Unexpected token'')]), [])
   \<and> httpServer gateway_platform
        \<lparr> req_method = ''POST'', req_url = ''/mcp'', req_body = ''{bad'' \<rparr> =
       (json_response gateway_platform 400
          (JObj [(''jsonrpc'', JStr ''2.0''),
                 (''id'', JNum 0),
                 (''error'', JObj [(''code'', JNum (- 32700)),
                    (''message'', JStr ''Parse error: SyntaxError: Unexpected token'')])]), [])
   \<and> JSON_parse gateway_platform ''{}'' = Inr (JObj [])
   \<and> map_of toolHandlers ''crop-price'' = Some cropPriceHandler
   \<and> httpServer gateway_platform
        \<lparr> req_method = ''POST'', req_url = ''/tools/crop-price'', req_body = [] \<rparr> =
       (json_response gateway_platform 200 (fst (cropPriceHandler gateway_platform (JObj []))),
        snd (cropPriceHandler gateway_platform (JObj [])))
   \<and> res_status (fst (httpServer gateway_platform
        \<lparr> req_method = ''POST'', req_url = ''/tools/crop-price'', req_body = [] \<rparr>)) = 200"
proof -
  have h: "map_of toolHandlers ''crop-price'' = Some cropPriceHandler"
    by (simp add: toolHandlers_def)
  note T = malformed_body [of "''{bad''" gateway_platform
      "Exn ''SyntaxError'' ''Unexpected token''" "''crop-price''" cropPriceHandler]
  have r: "httpServer gateway_platform
        \<lparr> req_method = ''POST'', req_url = ''/tools/crop-price'', req_body = ''{bad'' \<rparr> =
       (json_response gateway_platform 400
          (JObj [(''error'', JStr ''Invalid request: SyntaxError: Unexpected token'')]), [])"
    using T [THEN conjunct1] by (simp add: gateway_parse String_exn_def)
  have m: "httpServer gateway_platform
        \<lparr> req_method = ''POST'', req_url = ''/mcp'', req_body = ''{bad'' \<rparr> =
       (json_response gateway_platform 400
          (JObj [(''jsonrpc'', JStr ''2.0''),
                 (''id'', JNum 0),
                 (''error'', JObj [(''code'', JNum (- 32700)),
                    (''message'', JStr ''Parse error: SyntaxError: Unexpected token'')])]), [])"
    using T [THEN conjunct2, THEN conjunct1] by (simp add: gateway_parse String_exn_def)
  have e: "httpServer gateway_platform
        \<lparr> req_method = ''POST'', req_url = ''/tools/crop-price'', req_body = [] \<rparr> =
       (json_response gateway_platform 200 (fst (cropPriceHandler gateway_platform (JObj []))),
        snd (cropPriceHandler gateway_platform (JObj [])))"
    using T [THEN conjunct2, THEN conjunct2, THEN conjunct2] by (simp add: gateway_parse h)
  from e have "res_status (fst (httpServer gateway_platform
        \<lparr> req_method = ''POST'', req_url = ''/tools/crop-price'', req_body = [] \<rparr>)) = 200"
    by (simp add: json_response_def)
  with r m e show ?thesis
    by (simp add: gateway_parse h)
qed


section \<open>Limit and offset of the price query\<close>

text \<open>
  Claim C8. For every invocation of the price handler, with any platform and any
  parameters: the outbound request, when the handler issues one, is a GET whose query
  begins with \<^verbatim>\<open>api-key\<close>, \<^verbatim>\<open>format\<close>, a \<^verbatim>\<open>limit\<close> entry and an \<^verbatim>\<open>offset\<close> entry, and has
  no other entry of these two names. Their values are the strings of the caller's
  \<^verbatim>\<open>limit\<close> and \<^verbatim>\<open>offset\<close>, and \<^verbatim>\<open>50\<close> and \<^verbatim>\<open>0\<close> where the caller has left them unset
  (absent, or \<^verbatim>\<open>null\<close>). Whenever the handler returns a success, its payload carries
  the same two values. The handler issues the request whenever the API key is
  configured, the parameters are not \<^verbatim>\<open>null\<close>, and \<^verbatim>\<open>limit\<close>, \<^verbatim>\<open>offset\<close> and the truthy
  filters convert to strings.
\<close>

theorem cropPrice_limit_offset:
  assumes "lim = js_coalesce (prop_of params ''limit'') (JNum 50)"
    and "offv = js_coalesce (prop_of params ''offset'') (JNum 0)"
  shows
    "(snd (cropPriceHandler P params) = []
      \<or> (\<exists>l off rest.
            js_String P lim = Inr l \<and> js_String P offv = Inr off
          \<and> ''limit'' \<notin> fst ` set rest \<and> ''offset'' \<notin> fst ` set rest
          \<and> snd (cropPriceHandler P params) =
              [\<lparr> fmethod = ''GET'',
                 furl = ''https://api.data.gov.in/resource/'' @
                        encodeURIComponent P (RESOURCE_ID P) @ ''?'' @
                        URLSearchParams_toString P
                          ([(''api-key'', the (env P ''DATAGOVIN_API_KEY'')), (''format'', ''json''),
                            (''limit'', l), (''offset'', off)] @ rest),
                 fheaders = [], fbody = None \<rparr>]))
     \<and> (\<forall>d. fst (cropPriceHandler P params) = success_result d \<longrightarrow>
            prop_of d ''limit'' = lim \<and> prop_of d ''offset'' = offv)
     \<and> (\<forall>fs. params = JObj fs \<longrightarrow>
            lim = (case map_of fs ''limit'' of
                     None \<Rightarrow> JNum 50 | Some v \<Rightarrow> if nullish v then JNum 50 else v)
          \<and> offv = (case map_of fs ''offset'' of
                      None \<Rightarrow> JNum 0 | Some v \<Rightarrow> if nullish v then JNum 0 else v))
     \<and> js_String P (JNum 50) = Inr ''50'' \<and> js_String P (JNum 0) = Inr ''0''
     \<and> (\<not> env_missing (env P ''DATAGOVIN_API_KEY'') \<and> \<not> nullish params
          \<and> (\<exists>l. js_String P lim = Inr l) \<and> (\<exists>off. js_String P offv = Inr off)
          \<and> (truthy (prop_of params ''state'') \<longrightarrow>
                (\<exists>s. js_String P (prop_of params ''state'') = Inr s))
          \<and> (truthy (prop_of params ''district'') \<longrightarrow>
                (\<exists>s. js_String P (prop_of params ''district'') = Inr s))
          \<and> (truthy (prop_of params ''commodity'') \<longrightarrow>
                (\<exists>s. js_String P (prop_of params ''commodity'') = Inr s))
        \<longrightarrow> snd (cropPriceHandler P params) \<noteq> [])"
proof -
  have shape: "snd (cropPriceHandler P params) = []
      \<or> (\<exists>l off rest.
            js_String P lim = Inr l \<and> js_String P offv = Inr off
          \<and> ''limit'' \<notin> fst ` set rest \<and> ''offset'' \<notin> fst ` set rest
          \<and> snd (cropPriceHandler P params) =
              [\<lparr> fmethod = ''GET'',
                 furl = ''https://api.data.gov.in/resource/'' @
                        encodeURIComponent P (RESOURCE_ID P) @ ''?'' @
                        URLSearchParams_toString P
                          ([(''api-key'', the (env P ''DATAGOVIN_API_KEY'')), (''format'', ''json''),
                            (''limit'', l), (''offset'', off)] @ rest),
                 fheaders = [], fbody = None \<rparr>])"
  proof (cases "snd (cropPriceHandler P params) = []")
    case True
    then show ?thesis by (rule disjI1)
  next
    case False
    from cropPriceHandler_request_shape [OF False] obtain l off sS sD sC where
      l: "js_String P (js_coalesce (prop_of params ''limit'') (JNum 50)) = Inr l"
      and off: "js_String P (js_coalesce (prop_of params ''offset'') (JNum 0)) = Inr off"
      and log: "snd (cropPriceHandler P params) =
        [\<lparr> fmethod = ''GET'',
           furl = ''https://api.data.gov.in/resource/'' @ encodeURIComponent P (RESOURCE_ID P) @
                  ''?'' @
                  URLSearchParams_toString P
                    ([(''api-key'', the (env P ''DATAGOVIN_API_KEY'')), (''format'', ''json''),
                      (''limit'', l), (''offset'', off)]
                     @ (if truthy (prop_of params ''state'') then [(''filters[State]'', sS)] else [])
                     @ (if truthy (prop_of params ''district'')
                        then [(''filters[District]'', sD)] else [])
                     @ (if truthy (prop_of params ''commodity'')
                        then [(''filters[Commodity]'', sC)] else [])),
           fheaders = [], fbody = None \<rparr>]"
      by (elim exE conjE) (rule that; assumption)
    define rest where "rest =
        (if truthy (prop_of params ''state'') then [(''filters[State]'', sS)] else [])
      @ (if truthy (prop_of params ''district'') then [(''filters[District]'', sD)] else [])
      @ (if truthy (prop_of params ''commodity'') then [(''filters[Commodity]'', sC)] else [])"
    have r: "''limit'' \<notin> fst ` set rest" "''offset'' \<notin> fst ` set rest"
      by (auto simp: rest_def)
    from l off r log show ?thesis
      unfolding assms rest_def [symmetric]
      by (intro disjI2 exI [of _ l] exI [of _ off] exI [of _ rest] conjI)
  qed
  have echo: "\<forall>d. fst (cropPriceHandler P params) = success_result d \<longrightarrow>
            prop_of d ''limit'' = lim \<and> prop_of d ''offset'' = offv"
    unfolding assms using cropPriceHandler_echo [of P params] by blast
  have unset: "\<forall>fs. params = JObj fs \<longrightarrow>
            lim = (case map_of fs ''limit'' of
                     None \<Rightarrow> JNum 50 | Some v \<Rightarrow> if nullish v then JNum 50 else v)
          \<and> offv = (case map_of fs ''offset'' of
                      None \<Rightarrow> JNum 0 | Some v \<Rightarrow> if nullish v then JNum 0 else v)"
    by (simp add: assms prop_of_def js_coalesce_def nullish_def split: option.splits)
  have issues: "snd (cropPriceHandler P params) \<noteq> []"
    if key: "\<not> env_missing (env P ''DATAGOVIN_API_KEY'')" and nn: "\<not> nullish params"
      and l: "\<exists>l. js_String P lim = Inr l" and off: "\<exists>off. js_String P offv = Inr off"
      and s: "truthy (prop_of params ''state'') \<longrightarrow>
                (\<exists>s. js_String P (prop_of params ''state'') = Inr s)"
      and d: "truthy (prop_of params ''district'') \<longrightarrow>
                (\<exists>s. js_String P (prop_of params ''district'') = Inr s)"
      and c: "truthy (prop_of params ''commodity'') \<longrightarrow>
                (\<exists>s. js_String P (prop_of params ''commodity'') = Inr s)"
  proof -
    from l obtain l' where l': "js_String P (js_coalesce (prop_of params ''limit'') (JNum 50)) = Inr l'"
      unfolding assms ..
    from off obtain off' where
      off': "js_String P (js_coalesce (prop_of params ''offset'') (JNum 0)) = Inr off'"
      unfolding assms ..
    define sS where "sS = (case js_String P (prop_of params ''state'') of Inr s \<Rightarrow> s | Inl e \<Rightarrow> [])"
    define sD where
      "sD = (case js_String P (prop_of params ''district'') of Inr s \<Rightarrow> s | Inl e \<Rightarrow> [])"
    define sC where
      "sC = (case js_String P (prop_of params ''commodity'') of Inr s \<Rightarrow> s | Inl e \<Rightarrow> [])"
    have s': "truthy (prop_of params ''state'') \<Longrightarrow> js_String P (prop_of params ''state'') = Inr sS"
      using s by (auto simp: sS_def)
    have d': "truthy (prop_of params ''district'') \<Longrightarrow>
        js_String P (prop_of params ''district'') = Inr sD"
      using d by (auto simp: sD_def)
    have c': "truthy (prop_of params ''commodity'') \<Longrightarrow>
        js_String P (prop_of params ''commodity'') = Inr sC"
      using c by (auto simp: sC_def)
    from cropPriceHandler_issues [OF key nn l' off' s' d' c'] show ?thesis by simp
  qed
  from shape echo unset js_String_defaults(1,2) [of P] issues show ?thesis
    by (intro conjI impI) (assumption | (elim conjE, rule issues; assumption))+
qed

theorem cropPrice_limit_offset_witness:
  "JNum 5 = js_coalesce (prop_of (JObj punjab_wheat_fields) ''limit'') (JNum 50)
   \<and> JNum 0 = js_coalesce (prop_of (JObj punjab_wheat_fields) ''offset'') (JNum 0)
   \<and> \<not> env_missing (env one_total_platform ''DATAGOVIN_API_KEY'')
   \<and> js_String one_total_platform (JNum 5) = Inr ''5''
   \<and> snd (cropPriceHandler one_total_platform (JObj punjab_wheat_fields)) =
       [\<lparr> fmethod = ''GET'',
          furl = ''https://api.data.gov.in/resource/35985678-0d79-46b4-9ed6-6f13308a1d24?api-key=sample-key&format=json&limit=5&offset=0&filters[State]=Punjab&filters[Commodity]=Wheat'',
          fheaders = [], fbody = None \<rparr>]
   \<and> fst (cropPriceHandler one_total_platform (JObj punjab_wheat_fields)) =
       success_result (JObj [(''records'', JArr [wheat_record]), (''total'', JNum 1),
                             (''limit'', JNum 5), (''offset'', JNum 0),
                             (''query'', JObj [(''state'', JStr ''Punjab''),
                                               (''district'', JUndefined),
                                               (''commodity'', JStr ''Wheat'')])])
   \<and> prop_of (JObj [(''records'', JArr [wheat_record]), (''total'', JNum 1),
                     (''limit'', JNum 5), (''offset'', JNum 0),
                     (''query'', JObj [(''state'', JStr ''Punjab''),
                                       (''district'', JUndefined),
                                       (''commodity'', JStr ''Wheat'')])]) ''limit'' = JNum 5"
proof -
  have e: "JNum 5 = js_coalesce (prop_of (JObj punjab_wheat_fields) ''limit'') (JNum 50)"
    "JNum 0 = js_coalesce (prop_of (JObj punjab_wheat_fields) ''offset'') (JNum 0)"
    by (simp_all add: punjab_wheat_fields_def prop_of_def js_coalesce_def nullish_def)
  note T = cropPrice_limit_offset [OF e, of one_total_platform]
  have j: "js_String one_total_platform (JNum 5) = Inr ''5''"
    by (simp add: Number_String_defaults)
  have log: "snd (cropPriceHandler one_total_platform (JObj punjab_wheat_fields)) =
       [\<lparr> fmethod = ''GET'',
          furl = ''https://api.data.gov.in/resource/35985678-0d79-46b4-9ed6-6f13308a1d24?api-key=sample-key&format=json&limit=5&offset=0&filters[State]=Punjab&filters[Commodity]=Wheat'',
          fheaders = [], fbody = None \<rparr>]"
    by code_simp
  have r: "fst (cropPriceHandler one_total_platform (JObj punjab_wheat_fields)) =
       success_result (JObj [(''records'', JArr [wheat_record]), (''total'', JNum 1),
                             (''limit'', JNum 5), (''offset'', JNum 0),
                             (''query'', JObj [(''state'', JStr ''Punjab''),
                                               (''district'', JUndefined),
                                               (''commodity'', JStr ''Wheat'')])])"
    by code_simp
  from T [THEN conjunct2, THEN conjunct1] r
  have p: "prop_of (JObj [(''records'', JArr [wheat_record]), (''total'', JNum 1),
                     (''limit'', JNum 5), (''offset'', JNum 0),
                     (''query'', JObj [(''state'', JStr ''Punjab''),
                                       (''district'', JUndefined),
                                       (''commodity'', JStr ''Wheat'')])]) ''limit'' = JNum 5"
    by (simp add: success_result_eq)
  show ?thesis
    by (intro conjI e(1) e(2) one_total_key(1) j log r p)
qed

section \<open>An entry without text\<close>

text \<open>
  Claim C9. Let the search upstream answer with a success status and a body whose
  \<^verbatim>\<open>results\<close> is a sequence. Whenever the search handler returns a success, its
  \<^verbatim>\<open>results\<close> has one mapped entry for every upstream entry, in the same order, and
  for every upstream entry that has no \<^verbatim>\<open>text\<close> the mapped entry has as its \<^verbatim>\<open>text\<close>
  the string \<^verbatim>\<open>undefined\<close>, of nine characters: the field is neither absent, nor
  \<^verbatim>\<open>null\<close>, nor the empty string. The handler returns a success when every upstream
  entry is an object whose \<^verbatim>\<open>text\<close> is a string, \<^verbatim>\<open>null\<close> or absent.
\<close>

theorem search_text_absent:
  assumes "\<not> env_missing (env P ''EXA_API_KEY'')"
    and "search_params params = Inr a"
    and "fetch P (search_request P (the (env P ''EXA_API_KEY'')) a) = Inr res"
    and "ok res"
    and "JSON_parse P (rtext res) = Inr (JObj body)"
    and "map_of body ''results'' = Some (JArr rs)"
  shows
    "(\<forall>d. fst (searchHandler P params) = success_result d \<longrightarrow>
        (\<exists>ys. d = JObj [(''results'', JArr ys),
                        (''total_results'', JNum (int (length rs))),
                        (''query'', s_query a)]
           \<and> length ys = length rs
           \<and> (\<forall>i efs. i < length rs \<and> rs ! i = JObj efs \<and> map_of efs ''text'' = None
                \<longrightarrow> ys ! i =
                      JObj [(''title'', prop_of (rs ! i) ''title''),
                            (''url'', prop_of (rs ! i) ''url''),
                            (''text'', JStr ''undefined''),
                            (''score'', prop_of (rs ! i) ''score''),
                            (''published_date'', prop_of (rs ! i) ''published_date'')]
                  \<and> prop_of (ys ! i) ''text'' = JStr ''undefined''
                  \<and> prop_of (ys ! i) ''text'' \<noteq> JUndefined
                  \<and> prop_of (ys ! i) ''text'' \<noteq> JNull
                  \<and> prop_of (ys ! i) ''text'' \<noteq> JStr [])))
     \<and> length ''undefined'' = 9
     \<and> ((\<forall>e\<in>set rs. \<exists>efs. e = JObj efs
             \<and> (map_of efs ''text'' = None \<or> map_of efs ''text'' = Some JNull
                  \<or> (\<exists>s. map_of efs ''text'' = Some (JStr s))))
          \<longrightarrow> (\<exists>d. fst (searchHandler P params) = success_result d))"
proof (intro conjI allI impI)
  fix d assume d: "fst (searchHandler P params) = success_result d"
  from searchHandler_mapped [OF assms d] obtain ys where
    shape: "d = JObj [(''results'', JArr ys),
                     (''total_results'', JNum (int (length rs))),
                     (''query'', s_query a)]"
    and len: "length ys = length rs"
    and nth: "\<forall>i<length rs. mapResult P (rs ! i) = Inr (ys ! i)"
    by blast
  have inner: "ys ! i =
          JObj [(''title'', prop_of (rs ! i) ''title''),
                (''url'', prop_of (rs ! i) ''url''),
                (''text'', JStr ''undefined''),
                (''score'', prop_of (rs ! i) ''score''),
                (''published_date'', prop_of (rs ! i) ''published_date'')]
        \<and> prop_of (ys ! i) ''text'' = JStr ''undefined''
        \<and> prop_of (ys ! i) ''text'' \<noteq> JUndefined
        \<and> prop_of (ys ! i) ''text'' \<noteq> JNull
        \<and> prop_of (ys ! i) ''text'' \<noteq> JStr []"
    if "i < length rs \<and> rs ! i = JObj efs \<and> map_of efs ''text'' = None" for i efs
  proof -
    from that have i: "i < length rs" and e: "rs ! i = JObj efs"
      and t: "map_of efs ''text'' = None \<or> map_of efs ''text'' = Some JNull"
      by simp_all
    from nth i e mapResult_text_absent [OF t, of P]
    have "ys ! i =
          JObj [(''title'', prop_of (rs ! i) ''title''),
                (''url'', prop_of (rs ! i) ''url''),
                (''text'', JStr ''undefined''),
                (''score'', prop_of (rs ! i) ''score''),
                (''published_date'', prop_of (rs ! i) ''published_date'')]"
      by auto
    then show ?thesis by (simp add: prop_of_def)
  qed
  show "\<exists>ys. d = JObj [(''results'', JArr ys),
                        (''total_results'', JNum (int (length rs))),
                        (''query'', s_query a)]
           \<and> length ys = length rs
           \<and> (\<forall>i efs. i < length rs \<and> rs ! i = JObj efs \<and> map_of efs ''text'' = None
                \<longrightarrow> ys ! i =
                      JObj [(''title'', prop_of (rs ! i) ''title''),
                            (''url'', prop_of (rs ! i) ''url''),
                            (''text'', JStr ''undefined''),
                            (''score'', prop_of (rs ! i) ''score''),
                            (''published_date'', prop_of (rs ! i) ''published_date'')]
                  \<and> prop_of (ys ! i) ''text'' = JStr ''undefined''
                  \<and> prop_of (ys ! i) ''text'' \<noteq> JUndefined
                  \<and> prop_of (ys ! i) ''text'' \<noteq> JNull
                  \<and> prop_of (ys ! i) ''text'' \<noteq> JStr [])"
  proof (intro exI [of _ ys] conjI)
    show "d = JObj [(''results'', JArr ys),
                    (''total_results'', JNum (int (length rs))),
                    (''query'', s_query a)]"
      by (rule shape)
    show "length ys = length rs"
      by (rule len)
  qed (intro allI impI, rule inner, assumption)
next
  show "length ''undefined'' = 9" by simp
next
  assume "\<forall>e\<in>set rs. \<exists>efs. e = JObj efs
             \<and> (map_of efs ''text'' = None \<or> map_of efs ''text'' = Some JNull
                  \<or> (\<exists>s. map_of efs ''text'' = Some (JStr s)))"
  from searchHandler_succeeds [OF assms this]
  show "\<exists>d. fst (searchHandler P params) = success_result d" .
qed

theorem search_text_absent_witness:
  "\<not> env_missing (env search_platform ''EXA_API_KEY'')
   \<and> search_params wheat_query = Inr wheat_query_locals
   \<and> fetch search_platform
        (search_request search_platform (the (env search_platform ''EXA_API_KEY''))
           wheat_query_locals) = Inr \<lparr> rstatus = 200, rtext = search_reply_text \<rparr>
   \<and> ok \<lparr> rstatus = 200, rtext = search_reply_text \<rparr>
   \<and> JSON_parse search_platform search_reply_text = Inr (JObj search_reply_fields)
   \<and> map_of search_reply_fields ''results'' = Some (JArr search_reply_entries)
   \<and> search_reply_entries ! 3 = JObj textless_entry
   \<and> map_of textless_entry ''text'' = None
   \<and> (\<exists>ys. fst (searchHandler search_platform wheat_query) =
         success_result (JObj [(''results'', JArr ys),
                               (''total_results'', JNum 4),
                               (''query'', JStr ''wheat prices'')])
        \<and> length ys = 4
        \<and> ys ! 3 = JObj [(''title'', JStr ''Cotton''), (''url'', JStr ''https://example.org/c''),
                         (''text'', JStr ''undefined''),
                         (''score'', JUndefined), (''published_date'', JUndefined)])"
proof -
  have k: "\<not> env_missing (env search_platform ''EXA_API_KEY'')"
    by (simp add: search_platform_def sample_platform_def sample_env_def env_missing_def)
  have a: "search_params wheat_query = Inr wheat_query_locals"
    by code_simp
  have f: "fetch search_platform
        (search_request search_platform (the (env search_platform ''EXA_API_KEY''))
           wheat_query_locals) = Inr \<lparr> rstatus = 200, rtext = search_reply_text \<rparr>"
    by (simp add: search_platform_def sample_platform_def upstream_ok_def)
  have o: "ok \<lparr> rstatus = 200, rtext = search_reply_text \<rparr>"
    by (simp add: ok_def)
  have p: "JSON_parse search_platform search_reply_text = Inr (JObj search_reply_fields)"
    by (simp add: search_platform_def sample_platform_def sample_parse_def)
  have p': "JSON_parse search_platform (rtext \<lparr> rstatus = 200, rtext = search_reply_text \<rparr>)
      = Inr (JObj search_reply_fields)"
    using p by simp
  have r: "map_of search_reply_fields ''results'' = Some (JArr search_reply_entries)"
    by (simp add: search_reply_fields_def)
  note T = search_text_absent [OF k a f o p' r]
  have ok_entries: "\<forall>e\<in>set search_reply_entries. \<exists>efs. e = JObj efs
             \<and> (map_of efs ''text'' = None \<or> map_of efs ''text'' = Some JNull
                  \<or> (\<exists>s. map_of efs ''text'' = Some (JStr s)))"
    by (simp add: search_reply_entries_def short_entry_def entry_of_length_def textless_entry_def)
  from T [THEN conjunct2, THEN conjunct2, THEN mp, OF ok_entries]
  obtain d where d: "fst (searchHandler search_platform wheat_query) = success_result d" ..
  from T [THEN conjunct1, rule_format, OF d] obtain ys where
    shape: "d = JObj [(''results'', JArr ys),
                     (''total_results'', JNum (int (length search_reply_entries))),
                     (''query'', s_query wheat_query_locals)]"
    and len: "length ys = length search_reply_entries"
    and nth: "\<forall>i efs. i < length search_reply_entries \<and> search_reply_entries ! i = JObj efs
                \<and> map_of efs ''text'' = None
                \<longrightarrow> ys ! i =
                      JObj [(''title'', prop_of (search_reply_entries ! i) ''title''),
                            (''url'', prop_of (search_reply_entries ! i) ''url''),
                            (''text'', JStr ''undefined''),
                            (''score'', prop_of (search_reply_entries ! i) ''score''),
                            (''published_date'', prop_of (search_reply_entries ! i) ''published_date'')]
                  \<and> prop_of (ys ! i) ''text'' = JStr ''undefined''
                  \<and> prop_of (ys ! i) ''text'' \<noteq> JUndefined
                  \<and> prop_of (ys ! i) ''text'' \<noteq> JNull
                  \<and> prop_of (ys ! i) ''text'' \<noteq> JStr []"
    by (elim exE conjE) (rule that; assumption)
  have e3: "search_reply_entries ! 3 = JObj textless_entry"
    and t3: "map_of textless_entry ''text'' = None"
    and n: "length search_reply_entries = 4"
    by (simp_all add: search_reply_entries_def textless_entry_def)
  from nth [rule_format, of 3 textless_entry] e3 t3 n
  have y3: "ys ! 3 = JObj [(''title'', JStr ''Cotton''), (''url'', JStr ''https://example.org/c''),
                   (''text'', JStr ''undefined''),
                   (''score'', JUndefined), (''published_date'', JUndefined)]"
    by (simp add: prop_of_def textless_entry_def)
  from d shape n have out: "fst (searchHandler search_platform wheat_query) =
         success_result (JObj [(''results'', JArr ys),
                               (''total_results'', JNum 4),
                               (''query'', JStr ''wheat prices'')])"
    by (simp add: wheat_query_locals_def)
  from len n have l4: "length ys = 4" by simp
  from out l4 y3 have ex: "\<exists>ys. fst (searchHandler search_platform wheat_query) =
         success_result (JObj [(''results'', JArr ys),
                               (''total_results'', JNum 4),
                               (''query'', JStr ''wheat prices'')])
        \<and> length ys = 4
        \<and> ys ! 3 = JObj [(''title'', JStr ''Cotton''), (''url'', JStr ''https://example.org/c''),
                         (''text'', JStr ''undefined''),
                         (''score'', JUndefined), (''published_date'', JUndefined)]"
    by (intro exI [of _ ys] conjI)
  show ?thesis
    by (intro conjI k a f o p r e3 t3 ex)
qed


section \<open>A call without params\<close>

text \<open>
  Claim C10. For every RPC envelope whose method is \<^verbatim>\<open>tools/call\<close> and that has no
  \<^verbatim>\<open>params\<close>, the \<^verbatim>\<open>/mcp\<close> endpoint answers with the HTTP status 200 and an RPC error
  of code -32603, the internal error that wraps the failed destructuring; the id of
  the request is echoed, and no outbound request is issued.
\<close>

theorem call_without_params_internal_error:
  assumes "JSON_parse P body = Inr (JObj fs)"
    and "map_of fs ''method'' = Some (JStr ''tools/call'')"
    and "map_of fs ''params'' = None"
  shows "httpServer P \<lparr> req_method = ''POST'', req_url = ''/mcp'', req_body = body \<rparr> =
    (json_response P 200
       (rpc_error (case map_of fs ''id'' of None \<Rightarrow> JUndefined | Some i \<Rightarrow> i)
          (JObj [(''code'', JNum (- 32603)),
                 (''message'', JStr (''Internal error: TypeError: Cannot destructure property '' @
                    [CHR 0x27] @ ''name'' @ [CHR 0x27] @ '' of '' @
                    [CHR 0x27] @ ''request.params'' @ [CHR 0x27] @ '' as it is undefined.''))])),
     [])"
proof -
  from assms(3) have p: "prop_of (JObj fs) ''params'' = JUndefined"
    by (simp add: prop_of_def)
  have i: "prop_of (JObj fs) ''id'' = (case map_of fs ''id'' of None \<Rightarrow> JUndefined | Some i \<Rightarrow> i)"
    by (simp add: prop_of_def)
  have "handleMCPRequest_try P (JObj fs) =
      (Inl (TypeError (''Cannot destructure property '' @
                    [CHR 0x27] @ ''name'' @ [CHR 0x27] @ '' of '' @
                    [CHR 0x27] @ ''request.params'' @ [CHR 0x27] @ '' as it is undefined.'')), [])"
    by (simp add: handleMCPRequest_call [OF assms(2)] p destructure_def nullish_def
          nullish_name_def)
  then show ?thesis
    by (simp add: mcp_route mcp_endpoint_def assms(1) handleMCPRequest_def getprop_obj
          bind_exn_def i String_exn_def TypeError_def)
qed

theorem call_without_params_internal_error_witness:
  "JSON_parse gateway_platform call_without_params_text = Inr (JObj call_without_params)
   \<and> map_of call_without_params ''method'' = Some (JStr ''tools/call'')
   \<and> map_of call_without_params ''params'' = None
   \<and> httpServer gateway_platform
        \<lparr> req_method = ''POST'', req_url = ''/mcp'', req_body = call_without_params_text \<rparr> =
       (json_response gateway_platform 200
          (JObj [(''jsonrpc'', JStr ''2.0''), (''id'', JNum 7),
                 (''error'', JObj [(''code'', JNum (- 32603)),
                    (''message'', JStr (''Internal error: TypeError: Cannot destructure property '' @
                       [CHR 0x27] @ ''name'' @ [CHR 0x27] @ '' of '' @
                       [CHR 0x27] @ ''request.params'' @ [CHR 0x27] @ '' as it is undefined.''))])]),
        [])"
proof -
  have a: "JSON_parse gateway_platform call_without_params_text = Inr (JObj call_without_params)"
    by code_simp
  have b: "map_of call_without_params ''method'' = Some (JStr ''tools/call'')"
    "map_of call_without_params ''params'' = None"
    "map_of call_without_params ''id'' = Some (JNum 7)"
    by (simp_all add: call_without_params_def)
  from call_without_params_internal_error [OF a b(1) b(2)]
  show ?thesis
    by (simp add: a b rpc_error_def)
qed


section \<open>Remarks\<close>

text \<open>
  The tool name of a REST call is what stands between the first and the second
  \<^verbatim>\<open>/tools/\<close> of the path, so a path with a second \<^verbatim>\<open>/tools/\<close> reaches the tool named
  before it.
\<close>

lemma nested_tools_path:
  "httpServer gateway_platform
     \<lparr> req_method = ''POST'', req_url = ''/tools/crop-price/tools/x'', req_body = ''{}'' \<rparr> =
   httpServer gateway_platform
     \<lparr> req_method = ''POST'', req_url = ''/tools/crop-price'', req_body = ''{}'' \<rparr>"
  by code_simp

text \<open>
  A \<^verbatim>\<open>limit\<close> or a filter that does not convert to a string makes the price handler
  return a server error before any request is issued.
\<close>

lemma cropPriceHandler_limit_unprintable:
  "cropPriceHandler offline_platform (JObj [(''limit'', JObj [(''toString'', JNum 1)])]) =
     (JObj [(''error'',
        JStr ''Server error: TypeError: Cannot convert object to primitive value'')], [])"
  by code_simp

lemma cropPriceHandler_state_unprintable:
  "cropPriceHandler offline_platform (JObj [(''state'', JObj [(''toString'', JNum 1)])]) =
     (JObj [(''error'',
        JStr ''Server error: TypeError: Cannot convert object to primitive value'')], [])"
  by code_simp

text \<open>
  A \<^verbatim>\<open>text\<close> that is \<^verbatim>\<open>null\<close> is mapped like one that is absent; a \<^verbatim>\<open>text\<close> that is
  neither a string nor \<^verbatim>\<open>null\<close> makes the callback throw, and the search handler
  then returns a server error.
\<close>

lemma mapResult_text_null:
  "mapResult search_platform (JObj [(''text'', JNull)]) =
     Inr (JObj [(''title'', JUndefined), (''url'', JUndefined), (''text'', JStr ''undefined''),
                (''score'', JUndefined), (''published_date'', JUndefined)])"
  by code_simp

lemma mapResult_text_number:
  "mapResult search_platform (JObj [(''text'', JNum 3)]) =
     Inl (TypeError ''result.text?.substring is not a function'')"
  by code_simp

end
